theory Spec2Isabelle
  imports Main "HOL-Library.Sublist"
begin

section \<open>Strings and truthiness\<close>

text \<open>
  A JavaScript string is modelled as a \<^typ>\<open>string\<close> whose characters are the code units
  below 256 (ASCII and Latin-1). \<open>undefined\<close> and \<open>null\<close> are \<open>None\<close>. A value is falsy
  when it is absent or the empty string.
\<close>

definition truthy :: "string option \<Rightarrow> bool" where
  "truthy v = (case v of None \<Rightarrow> False | Some t \<Rightarrow> t \<noteq> [])"

text \<open>\<open>String.prototype.trim\<close>: the white space code units below 256 are TAB, LF, VT, FF, CR,
  SPACE and NBSP.\<close>

definition isWhiteSpace :: "char \<Rightarrow> bool" where
  "isWhiteSpace c = ((of_char c :: nat) \<in> {9, 10, 11, 12, 13, 32, 160})"

definition trim :: "string \<Rightarrow> string" where
  "trim t = rev (dropWhile isWhiteSpace (rev (dropWhile isWhiteSpace t)))"

text \<open>\<open>String.prototype.toLowerCase\<close>: the upper-case code units below 256 are A to Z and
  0xC0 to 0xDE without the multiplication sign 0xD7; each is moved up by 32.\<close>

definition toLowerChar :: "char \<Rightarrow> char" where
  "toLowerChar c =
     (let n = (of_char c :: nat)
      in if (65 \<le> n \<and> n \<le> 90) \<or> (192 \<le> n \<and> n \<le> 222 \<and> n \<noteq> 215)
         then char_of (n + 32) else c)"

definition toLowerCase :: "string \<Rightarrow> string" where
  "toLowerCase t = map toLowerChar t"

text \<open>\<open>parts.join("\n")\<close>\<close>

fun joinLines :: "string list \<Rightarrow> string" where
  "joinLines [] = []"
| "joinLines [t] = t"
| "joinLines (t # u # us) = t @ [CHR 0x0A] @ joinLines (u # us)"

section \<open>Environment, errors and the world\<close>

text \<open>
  A thrown value is either an axios error that carries a response (status, status text,
  data) or another error with a message. \<open>extractError\<close> gives the text that is logged.
\<close>

datatype error = ResponseError nat string string | Error string

datatype errtext = ResponseDetail nat string string | Message string

fun extractError :: "error \<Rightarrow> errtext" where
  "extractError (ResponseError status statusText respData) =
     ResponseDetail status statusText respData"
| "extractError (Error m) = Message (if m = [] then ''Error'' else m)"

text \<open>A \<open>Buffer\<close> is its length and a name for its contents: the code reads the length and
  otherwise passes a buffer on whole.\<close>

datatype buffer = Buffer (byteLength: nat) (contentName: string)

datatype encoded = Base64 buffer

text \<open>The fixed reply texts of the source, one constructor for each literal; \<open>SummaryReply t\<close>
  is the template "Here is the summary of that voice note: ... Reply STOP to opt out." around
  the summary \<open>t\<close>.\<close>

datatype body =
    WaitNotice
  | SummaryReply string
  | NotUnderstood
  | Apology
  | OptedOutNotice
  | BackInNotice
  | HumanNotice
  | HelpReply

definition SUMMARY_PROMPT :: string where
  "SUMMARY_PROMPT = ''Summarize the key points from this WhatsApp voice message in two concise sentences. If the clip is not speech, describe any notable sounds.''"

datatype part = TextPart string | InlineData string encoded | FileData string string

text \<open>The outbound calls: the messaging gateway, the transcoder and the summarization
  service. A call is recorded when it is made, whether or not it succeeds.\<close>

datatype call =
    SendText string body
  | FetchMetadata string
  | DownloadMedia string
  | Transcode string string
  | UploadStart nat string
  | UploadFinalize string buffer string
  | GenerateContent "part list"

datatype usage =
    RateLimited string string
  | AudioReceived string string
  | SummarySent string string bool
  | SummaryFailed string string errtext
  | OptOut string
  | OptIn string
  | HumanRequested string

datatype fsop =
    EnsureDir string
  | ReadJson string
  | WriteJson string
  | AppendFile string
  | Mkdtemp string
  | WriteFile string
  | Stat string
  | ReadFile string
  | Remove string

text \<open>The content of a JSON file: an array of identifiers, some other JSON value, or text
  that does not parse.\<close>

datatype json = JArray "string list" | JNotArray | JMalformed

record metadata =
  url :: "string option"
  mime_type :: "string option"

text \<open>The data of a \<open>generateContent\<close> response: \<open>candidates\<close>, each candidate given by its
  \<open>content.parts\<close> (absent when \<open>content\<close> or \<open>parts\<close> is), each part by its \<open>text\<close>.\<close>

type_synonym candidate = "string option list option"

type_synonym gen_data = "candidate list option option"

text \<open>
  The environment: the configuration read from \<open>process.env\<close>, the clock, and the outcome of
  every file-system operation and outbound call. Each outcome is a function of the number of
  interactions made so far (\<open>tick\<close>), so that two calls with the same arguments may differ.
\<close>

record env =
  META_VERIFY_TOKEN :: "string option"
  RATE_LIMIT_MS :: "int option"
  dateNow :: "nat \<Rightarrow> int"
  fsFault :: "nat \<Rightarrow> fsop \<Rightarrow> string option"
  tmpName :: "nat \<Rightarrow> string"
  axiosPostMessage :: "nat \<Rightarrow> string \<Rightarrow> body \<Rightarrow> error option"
  axiosGetMetadata :: "nat \<Rightarrow> string \<Rightarrow> error + metadata option"
  axiosGetMedia :: "nat \<Rightarrow> string \<Rightarrow> error + buffer"
  ffmpegRun :: "nat \<Rightarrow> string \<Rightarrow> error + buffer"
  axiosPostUploadStart :: "nat \<Rightarrow> nat \<Rightarrow> string \<Rightarrow> error + string option"
  axiosPostUpload :: "nat \<Rightarrow> string \<Rightarrow> buffer \<Rightarrow> error + string option"
  axiosPostGenerate :: "nat \<Rightarrow> part list \<Rightarrow> error + gen_data"

text \<open>\<open>Number(process.env.RATE_LIMIT_MS) || 15000\<close>: \<open>RATE_LIMIT_MS\<close> is the number the variable
  denotes, absent when it is unset or not a number.\<close>

definition MAX_INLINE_BYTES :: nat where
  "MAX_INLINE_BYTES = 20 * 1024 * 1024"

definition RATE_LIMIT_WINDOW_MS :: "env \<Rightarrow> int" where
  "RATE_LIMIT_WINDOW_MS E =
     (case RATE_LIMIT_MS E of None \<Rightarrow> 15000 | Some n \<Rightarrow> if n = 0 then 15000 else n)"

definition DATA_DIR :: string where
  "DATA_DIR = ''data''"

definition OPT_OUT_PATH :: string where
  "OPT_OUT_PATH = ''data/opt-outs.json''"

definition USAGE_LOG_PATH :: string where
  "USAGE_LOG_PATH = ''data/usage.log''"

text \<open>\<open>class OptOutStore\<close>: \<open>items\<close> is the \<open>Set\<close>, kept in insertion order without
  duplicates, as \<open>Array.from\<close> lists it.\<close>

record OptOutStore =
  filePath :: string
  items :: "string list"
  initialized :: bool

record world =
  optOutStore :: OptOutStore
  recentRequests :: "string \<rightharpoonup> int"
  timers :: "(string \<times> int) list"
  jsonFiles :: "string \<rightharpoonup> json"
  usageLog :: "(int \<times> usage) list"
  audioFiles :: "string \<rightharpoonup> buffer"
  calls :: "call list"
  tick :: nat

type_synonym 'a io = "world \<Rightarrow> (error + 'a) \<times> world"

text \<open>Sequencing of awaited steps: a thrown error skips the rest.\<close>

definition bindE :: "'a io \<Rightarrow> ('a \<Rightarrow> 'b io) \<Rightarrow> 'b io" where
  "bindE m f s = (case m s of (Inl e, s') \<Rightarrow> (Inl e, s') | (Inr v, s') \<Rightarrow> f v s')"

definition returnE :: "'a \<Rightarrow> 'a io" where
  "returnE v s = (Inr v, s)"

definition throwE :: "error \<Rightarrow> 'a io" where
  "throwE e s = (Inl e, s)"

definition advance :: "world \<Rightarrow> world" where
  "advance s = s\<lparr>tick := Suc (tick s)\<rparr>"

text \<open>A file-system operation: it throws when the environment says so.\<close>

definition fsCall :: "env \<Rightarrow> fsop \<Rightarrow> unit io" where
  "fsCall E opn s =
     (case fsFault E (tick s) opn of
        Some m \<Rightarrow> (Inl (Error m), advance s)
      | None \<Rightarrow> (Inr (), advance s))"

definition Date_now :: "env \<Rightarrow> world \<Rightarrow> int \<times> world" where
  "Date_now E s = (dateNow E (tick s), advance s)"

section \<open>The opt-out store\<close>

definition setAdd :: "string \<Rightarrow> string list \<Rightarrow> string list" where
  "setAdd x xs = (if x \<in> set xs then xs else xs @ [x])"

definition setDelete :: "string \<Rightarrow> string list \<Rightarrow> string list" where
  "setDelete x xs = filter (\<lambda>y. y \<noteq> x) xs"

definition dirname :: "string \<Rightarrow> string" where
  "dirname p = rev (drop 1 (dropWhile (\<lambda>c. c \<noteq> CHR ''/'') (rev p)))"

text \<open>\<open>init\<close>: nothing when already initialized; a failing \<open>ensureDir\<close> throws; a file that
  cannot be read is logged and skipped; an array is added item by item.\<close>

definition init :: "env \<Rightarrow> unit io" where
  "init E s =
     (let st = optOutStore s in
      if initialized st then (Inr (), s)
      else
        (case fsCall E (EnsureDir (dirname (filePath st))) s of
           (Inl e, s1) \<Rightarrow> (Inl e, s1)
         | (Inr _, s1) \<Rightarrow>
             (case jsonFiles s1 (filePath st) of
                None \<Rightarrow> (Inr (), s1\<lparr>optOutStore := st\<lparr>initialized := True\<rparr>\<rparr>)
              | Some content \<Rightarrow>
                  (case fsCall E (ReadJson (filePath st)) s1 of
                     (Inl e, s2) \<Rightarrow> (Inr (), s2\<lparr>optOutStore := st\<lparr>initialized := True\<rparr>\<rparr>)
                   | (Inr _, s2) \<Rightarrow>
                       (case content of
                          JArray xs \<Rightarrow>
                            (Inr (), s2\<lparr>optOutStore :=
                               st\<lparr>items := foldl (\<lambda>acc x. setAdd x acc) (items st) xs,
                                  initialized := True\<rparr>\<rparr>)
                        | _ \<Rightarrow> (Inr (), s2\<lparr>optOutStore := st\<lparr>initialized := True\<rparr>\<rparr>))))))"

definition save :: "env \<Rightarrow> unit io" where
  "save E s =
     (let st = optOutStore s in
      case fsCall E (WriteJson (filePath st)) s of
        (Inl e, s1) \<Rightarrow> (Inl e, s1)
      | (Inr _, s1) \<Rightarrow> (Inr (), s1\<lparr>jsonFiles := (jsonFiles s1)(filePath st \<mapsto> JArray (items st))\<rparr>))"

definition add :: "env \<Rightarrow> string \<Rightarrow> unit io" where
  "add E phone =
     bindE (init E) (\<lambda>_ s.
       save E (s\<lparr>optOutStore := (optOutStore s)\<lparr>items := setAdd phone (items (optOutStore s))\<rparr>\<rparr>))"

definition remove :: "env \<Rightarrow> string \<Rightarrow> unit io" where
  "remove E phone =
     bindE (init E) (\<lambda>_ s.
       save E (s\<lparr>optOutStore := (optOutStore s)\<lparr>items := setDelete phone (items (optOutStore s))\<rparr>\<rparr>))"

definition has :: "env \<Rightarrow> string \<Rightarrow> bool io" where
  "has E phone =
     bindE (init E) (\<lambda>_ s. (Inr (phone \<in> set (items (optOutStore s))), s))"

section \<open>The verification handshake\<close>

text \<open>A query value is a string, or an array or object built by the query parser; a missing
  parameter is \<open>None\<close>. \<open>===\<close> between a query value and a configured string holds for two
  equal strings and for two \<open>undefined\<close>.\<close>

datatype qvalue = QString string | QStructured

record query =
  hub_mode :: "qvalue option"
  hub_verify_token :: "qvalue option"
  hub_challenge :: "qvalue option"

datatype response = StatusSend nat "qvalue option" | SendStatus nat

fun strictEq :: "qvalue option \<Rightarrow> string option \<Rightarrow> bool" where
  "strictEq None None = True"
| "strictEq (Some (QString a)) (Some b) = (a = b)"
| "strictEq _ _ = False"

definition getWebhook :: "env \<Rightarrow> query \<Rightarrow> response" where
  "getWebhook E q =
     (if strictEq (hub_mode q) (Some ''subscribe'')
         \<and> strictEq (hub_verify_token q) (META_VERIFY_TOKEN E)
      then StatusSend 200 (hub_challenge q)
      else SendStatus 403)"

section \<open>Outbound calls\<close>

text \<open>An outbound call is appended to \<open>calls\<close> and its outcome is read from the
  environment.\<close>

definition outbound :: "call \<Rightarrow> (nat \<Rightarrow> error + 'a) \<Rightarrow> 'a io" where
  "outbound c respond s = (respond (tick s), advance (s\<lparr>calls := calls s @ [c]\<rparr>))"

definition logUsage :: "env \<Rightarrow> usage \<Rightarrow> unit io" where
  "logUsage E event =
     bindE (fsCall E (EnsureDir DATA_DIR)) (\<lambda>_ s.
       (case Date_now E s of
          (timestamp, s1) \<Rightarrow>
            (case fsCall E (AppendFile USAGE_LOG_PATH) s1 of
               (Inl e, s2) \<Rightarrow> (Inl e, s2)
             | (Inr _, s2) \<Rightarrow> (Inr (), s2\<lparr>usageLog := usageLog s2 @ [(timestamp, event)]\<rparr>))))"

definition sendWhatsAppText :: "env \<Rightarrow> string \<Rightarrow> body \<Rightarrow> unit io" where
  "sendWhatsAppText E to msgBody =
     outbound (SendText to msgBody)
       (\<lambda>n. case axiosPostMessage E n to msgBody of Some e \<Rightarrow> Inl e | None \<Rightarrow> Inr ())"

definition fetchMediaMetadata :: "env \<Rightarrow> string \<Rightarrow> metadata option io" where
  "fetchMediaMetadata E mediaId =
     outbound (FetchMetadata mediaId) (\<lambda>n. axiosGetMetadata E n mediaId)"

definition downloadMediaFile :: "env \<Rightarrow> string \<Rightarrow> buffer io" where
  "downloadMediaFile E downloadUrl =
     outbound (DownloadMedia downloadUrl) (\<lambda>n. axiosGetMedia E n downloadUrl)"

definition normalizeMimeType :: "string option \<Rightarrow> string option" where
  "normalizeMimeType mime =
     (case mime of
        None \<Rightarrow> None
      | Some m \<Rightarrow>
          if m = [] then None
          else Some (toLowerCase (trim (takeWhile (\<lambda>c. c \<noteq> CHR '';'') m))))"

text \<open>\<open>map[mime] || ".bin"\<close> over the four keys of the object literal; keys that a JavaScript
  object inherits from its prototype are not modelled.\<close>

definition extensionFromMime :: "string option \<Rightarrow> string" where
  "extensionFromMime mime =
     (if \<not> truthy mime then ''.bin''
      else if mime = Some ''audio/ogg'' then ''.ogg''
      else if mime = Some ''audio/mp3'' then ''.mp3''
      else if mime = Some ''audio/mpeg'' then ''.mp3''
      else if mime = Some ''audio/wav'' then ''.wav''
      else ''.bin'')"

section \<open>Temporary audio files\<close>

definition mkdtemp :: "env \<Rightarrow> string \<Rightarrow> string io" where
  "mkdtemp E pre s =
     (case fsFault E (tick s) (Mkdtemp pre) of
        Some m \<Rightarrow> (Inl (Error m), advance s)
      | None \<Rightarrow> (Inr (pre @ tmpName E (tick s)), advance s))"

definition fsWriteFile :: "env \<Rightarrow> string \<Rightarrow> buffer \<Rightarrow> unit io" where
  "fsWriteFile E p b =
     bindE (fsCall E (WriteFile p)) (\<lambda>_ s. (Inr (), s\<lparr>audioFiles := (audioFiles s)(p \<mapsto> b)\<rparr>))"

definition fsStat :: "env \<Rightarrow> string \<Rightarrow> nat io" where
  "fsStat E p =
     bindE (fsCall E (Stat p)) (\<lambda>_ s.
       (case audioFiles s p of
          None \<Rightarrow> (Inl (Error ''ENOENT''), s)
        | Some b \<Rightarrow> (Inr (byteLength b), s)))"

definition fsReadFile :: "env \<Rightarrow> string \<Rightarrow> buffer io" where
  "fsReadFile E p =
     bindE (fsCall E (ReadFile p)) (\<lambda>_ s.
       (case audioFiles s p of
          None \<Rightarrow> (Inl (Error ''ENOENT''), s)
        | Some b \<Rightarrow> (Inr b, s)))"

text \<open>\<open>fs.remove(tempDir).catch(() => {})\<close>: a failure is swallowed.\<close>

definition fsRemove :: "env \<Rightarrow> string \<Rightarrow> world \<Rightarrow> world" where
  "fsRemove E d s =
     (case fsCall E (Remove d) s of
        (Inl e, s1) \<Rightarrow> s1
      | (Inr _, s1) \<Rightarrow>
          s1\<lparr>audioFiles := (\<lambda>p. if prefix (d @ ''/'') p then None else audioFiles s1 p)\<rparr>)"

section \<open>Transcoding and summarization\<close>

definition convertToMp3IfNeeded :: "env \<Rightarrow> string \<Rightarrow> string option \<Rightarrow> (string \<times> string) io" where
  "convertToMp3IfNeeded E inputPath mimeType =
     (if mimeType = Some ''audio/mpeg'' then returnE (inputPath, ''audio/mpeg'')
      else if mimeType = Some ''audio/mp3'' then returnE (inputPath, ''audio/mp3'')
      else
        (let outputPath = inputPath @ ''.mp3'' in
         bindE (outbound (Transcode inputPath outputPath) (\<lambda>n. ffmpegRun E n inputPath))
           (\<lambda>out s. (Inr (outputPath, ''audio/mpeg''),
                     s\<lparr>audioFiles := (audioFiles s)(outputPath \<mapsto> out)\<rparr>))))"

text \<open>The two phases of the resumable upload. The display name of the first request reads
  the clock; a missing upload URL or file URI throws.\<close>

definition startResumableUpload :: "env \<Rightarrow> buffer \<Rightarrow> string \<Rightarrow> string io" where
  "startResumableUpload E buf mimeType s =
     (case Date_now E s of
        (named, s0) \<Rightarrow>
          bindE (outbound (UploadStart (byteLength buf) mimeType)
                   (\<lambda>n. axiosPostUploadStart E n (byteLength buf) mimeType))
            (\<lambda>uploadUrl.
               case uploadUrl of
                 None \<Rightarrow> throwE (Error ''Gemini upload URL missing from response.'')
               | Some u \<Rightarrow>
                   if u = [] then throwE (Error ''Gemini upload URL missing from response.'')
                   else
                     bindE (outbound (UploadFinalize u buf mimeType)
                              (\<lambda>n. axiosPostUpload E n u buf))
                       (\<lambda>fileUri.
                          case fileUri of
                            None \<Rightarrow> throwE (Error ''Gemini file URI missing after upload.'')
                          | Some f \<Rightarrow>
                              if f = [] then throwE (Error ''Gemini file URI missing after upload.'')
                              else returnE f)) s0)"

text \<open>The text of the first candidate: the truthy part texts joined by line feeds and
  trimmed, \<open>null\<close> when there is none or the result is empty.\<close>

definition extractText :: "gen_data \<Rightarrow> string option" where
  "extractText d =
     (case d of
        None \<Rightarrow> None
      | Some None \<Rightarrow> None
      | Some (Some []) \<Rightarrow> None
      | Some (Some (None # _)) \<Rightarrow> None
      | Some (Some (Some parts # _)) \<Rightarrow>
          (let t = trim (joinLines (concat (map (\<lambda>p. case p of None \<Rightarrow> [] | Some x \<Rightarrow> if x = [] then [] else [x]) parts)))
           in if t = [] then None else Some t))"

definition generateContent :: "env \<Rightarrow> part list \<Rightarrow> string option io" where
  "generateContent E contents =
     bindE (outbound (GenerateContent contents) (\<lambda>n. axiosPostGenerate E n contents))
       (\<lambda>d. returnE (extractText d))"

definition summarizeWithGemini :: "env \<Rightarrow> string \<Rightarrow> string \<Rightarrow> string option io" where
  "summarizeWithGemini E path mimeType =
     bindE (fsStat E path) (\<lambda>size.
     bindE (fsReadFile E path) (\<lambda>audioBuffer.
       if size > MAX_INLINE_BYTES then
         bindE (startResumableUpload E audioBuffer mimeType) (\<lambda>fileUri.
           generateContent E [TextPart SUMMARY_PROMPT, FileData mimeType fileUri])
       else
         generateContent E [TextPart SUMMARY_PROMPT, InlineData mimeType (Base64 audioBuffer)]))"

section \<open>The audio handler\<close>

text \<open>A message of the webhook payload: \<open>from\<close>, \<open>type\<close>, \<open>audio?.id\<close> and \<open>text?.body\<close>.\<close>

record message =
  msg_from :: "string option"
  msg_type :: "string option"
  audio_id :: "string option"
  text_body :: "string option"

text \<open>Lines 344 to 364 of the \<open>try\<close> block, up to the transcoded file. The second component
  of the result is the local variable \<open>tempDir\<close> as the \<open>finally\<close> block will find it.\<close>

definition audioPrepare ::
  "env \<Rightarrow> string \<Rightarrow> string \<Rightarrow> world \<Rightarrow> ((error + string \<times> string) \<times> string option) \<times> world" where
  "audioPrepare E sender mediaId s =
     (case bindE (logUsage E (AudioReceived sender mediaId)) (\<lambda>_.
           bindE (fetchMediaMetadata E mediaId) (\<lambda>md.
             case md of
               None \<Rightarrow> throwE (Error ''Media download URL not available.'')
             | Some m \<Rightarrow>
                 (case url m of
                    None \<Rightarrow> throwE (Error ''Media download URL not available.'')
                  | Some u \<Rightarrow>
                      if u = [] then throwE (Error ''Media download URL not available.'')
                      else returnE (m, u)))) s of
        (Inl e, s1) \<Rightarrow> ((Inl e, None), s1)
      | (Inr (m, u), s1) \<Rightarrow>
          (case mkdtemp E ''/tmp/wa-audio-'' s1 of
             (Inl e, s2) \<Rightarrow> ((Inl e, None), s2)
           | (Inr tempDir, s2) \<Rightarrow>
               (let normalizedMime = normalizeMimeType (mime_type m);
                    inputPath = tempDir @ ''/input'' @ extensionFromMime normalizedMime
                in case bindE (downloadMediaFile E u) (\<lambda>audioBuffer.
                        bindE (fsWriteFile E inputPath audioBuffer) (\<lambda>_.
                          convertToMp3IfNeeded E inputPath normalizedMime)) s2 of
                     (r, s3) \<Rightarrow> ((r, Some tempDir), s3))))"

text \<open>Lines 366 to 373: summarize, choose the reply, send it and record the usage event.\<close>

definition audioDeliver :: "env \<Rightarrow> string \<Rightarrow> string \<Rightarrow> string \<Rightarrow> string \<Rightarrow> unit io" where
  "audioDeliver E sender mediaId mp3Path mimeType =
     bindE (summarizeWithGemini E mp3Path mimeType) (\<lambda>summary.
       bindE (sendWhatsAppText E sender
                (case summary of
                   None \<Rightarrow> NotUnderstood
                 | Some t \<Rightarrow> if t = [] then NotUnderstood else SummaryReply t)) (\<lambda>_.
         logUsage E (SummarySent sender mediaId (truthy summary))))"

text \<open>The \<open>catch\<close> block: the apology is sent best-effort, then the failure is recorded.\<close>

definition audioCatch :: "env \<Rightarrow> string \<Rightarrow> string \<Rightarrow> error \<Rightarrow> unit io" where
  "audioCatch E sender mediaId err s =
     (case sendWhatsAppText E sender Apology s of
        (_, s1) \<Rightarrow> logUsage E (SummaryFailed sender mediaId (extractError err)) s1)"

text \<open>The \<open>finally\<close> block: remove the temporary directory, re-stamp the ledger and schedule
  the removal of the entry (a timer for the sender and the stamp).\<close>

definition audioFinally :: "env \<Rightarrow> string \<Rightarrow> string option \<Rightarrow> world \<Rightarrow> world" where
  "audioFinally E sender tempDir s =
     (let s1 = (case tempDir of None \<Rightarrow> s | Some d \<Rightarrow> fsRemove E d s)
      in case Date_now E s1 of
           (stamp, s2) \<Rightarrow>
             s2\<lparr>recentRequests := (recentRequests s2)(sender \<mapsto> stamp),
                timers := timers s2 @ [(sender, stamp)]\<rparr>)"

text \<open>The timer callback, run \<open>2 * RATE_LIMIT_WINDOW_MS\<close> after the stamp.\<close>

definition timerFires :: "string \<Rightarrow> int \<Rightarrow> world \<Rightarrow> world" where
  "timerFires sender stamp s =
     (if recentRequests s sender = Some stamp
      then s\<lparr>recentRequests := (recentRequests s)(sender := None)\<rparr>
      else s)"

text \<open>Lines 341 to 399: \<open>try\<close>, \<open>catch\<close>, \<open>finally\<close>.\<close>

definition audioPipeline :: "env \<Rightarrow> string \<Rightarrow> string \<Rightarrow> unit io" where
  "audioPipeline E sender mediaId s =
     (case audioPrepare E sender mediaId s of
        ((Inl err, tempDir), s1) \<Rightarrow>
          (case audioCatch E sender mediaId err s1 of
             (r, s2) \<Rightarrow> (r, audioFinally E sender tempDir s2))
      | ((Inr (mp3Path, mimeType), tempDir), s1) \<Rightarrow>
          (case audioDeliver E sender mediaId mp3Path mimeType s1 of
             (Inl err, s2) \<Rightarrow>
               (case audioCatch E sender mediaId err s2 of
                  (r, s3) \<Rightarrow> (r, audioFinally E sender tempDir s3))
           | (Inr _, s2) \<Rightarrow> (Inr (), audioFinally E sender tempDir s2)))"

definition handleAudioMessage :: "env \<Rightarrow> string \<Rightarrow> message \<Rightarrow> unit io" where
  "handleAudioMessage E sender msg =
     bindE (has E sender) (\<lambda>optedOut.
       if optedOut then returnE ()
       else
         (case audio_id msg of
            None \<Rightarrow> returnE ()
          | Some mediaId \<Rightarrow>
              if mediaId = [] then returnE ()
              else (\<lambda>s.
                case Date_now E s of
                  (now, s1) \<Rightarrow>
                    (let lastTime = (case recentRequests s1 sender of None \<Rightarrow> 0 | Some t \<Rightarrow> t)
                     in if now - lastTime < RATE_LIMIT_WINDOW_MS E then
                          bindE (sendWhatsAppText E sender WaitNotice) (\<lambda>_.
                            logUsage E (RateLimited sender mediaId)) s1
                        else
                          audioPipeline E sender mediaId
                            (s1\<lparr>recentRequests := (recentRequests s1)(sender \<mapsto> now)\<rparr>)))))"

section \<open>Text commands and the dispatcher\<close>

definition handleTextMessage :: "env \<Rightarrow> string \<Rightarrow> message \<Rightarrow> unit io" where
  "handleTextMessage E sender msg =
     (let txt = trim (case text_body msg of None \<Rightarrow> [] | Some b \<Rightarrow> b);
          normalized = toLowerCase txt
      in if txt = [] then returnE ()
         else if normalized = ''stop'' \<or> normalized = ''/stop'' then
           bindE (add E sender) (\<lambda>_.
             bindE (sendWhatsAppText E sender OptedOutNotice) (\<lambda>_.
               logUsage E (OptOut sender)))
         else if normalized = ''start'' \<or> normalized = ''/start'' then
           bindE (remove E sender) (\<lambda>_.
             bindE (sendWhatsAppText E sender BackInNotice) (\<lambda>_.
               logUsage E (OptIn sender)))
         else if normalized = ''human'' \<or> normalized = ''/human'' then
           bindE (sendWhatsAppText E sender HumanNotice) (\<lambda>_.
             logUsage E (HumanRequested sender))
         else sendWhatsAppText E sender HelpReply)"

text \<open>The payload: \<open>entry\<close>, \<open>changes\<close> and \<open>value.messages\<close> may each be absent.\<close>

datatype change = Change (messages: "message list option")

datatype entry = Entry (changes: "change list option")

datatype payload = Payload (entry: "entry list option")

definition handleMessage :: "env \<Rightarrow> message \<Rightarrow> unit io" where
  "handleMessage E msg =
     (case msg_from msg of
        None \<Rightarrow> returnE ()
      | Some sender \<Rightarrow>
          if sender = [] then returnE ()
          else if msg_type msg = Some ''audio'' then handleAudioMessage E sender msg
          else if msg_type msg = Some ''text'' then handleTextMessage E sender msg
          else returnE ())"

fun processMessages :: "env \<Rightarrow> message list \<Rightarrow> unit io" where
  "processMessages E [] = returnE ()"
| "processMessages E (m # ms) = bindE (handleMessage E m) (\<lambda>_. processMessages E ms)"

fun processChanges :: "env \<Rightarrow> change list \<Rightarrow> unit io" where
  "processChanges E [] = returnE ()"
| "processChanges E (c # cs) =
     bindE (processMessages E (case messages c of None \<Rightarrow> [] | Some ms \<Rightarrow> ms))
       (\<lambda>_. processChanges E cs)"

fun processEntries :: "env \<Rightarrow> entry list \<Rightarrow> unit io" where
  "processEntries E [] = returnE ()"
| "processEntries E (e # es) =
     bindE (processChanges E (case changes e of None \<Rightarrow> [] | Some cs \<Rightarrow> cs))
       (\<lambda>_. processEntries E es)"

definition processWebhookPayload :: "env \<Rightarrow> payload option \<Rightarrow> unit io" where
  "processWebhookPayload E p =
     (case p of
        None \<Rightarrow> returnE ()
      | Some (Payload None) \<Rightarrow> returnE ()
      | Some (Payload (Some es)) \<Rightarrow> processEntries E es)"

text \<open>\<open>POST /webhook\<close>: acknowledge, then process; an error of the processing is logged.\<close>

definition postWebhook :: "env \<Rightarrow> payload option \<Rightarrow> world \<Rightarrow> response \<times> world" where
  "postWebhook E p s = (SendStatus 200, snd (processWebhookPayload E p s))"

section \<open>Observations and sample inputs\<close>

text \<open>The calls made by a run from \<open>s\<close> to \<open>s'\<close>.\<close>

definition newCalls :: "world \<Rightarrow> world \<Rightarrow> call list" where
  "newCalls s s' = drop (length (calls s)) (calls s')"

text \<open>An audio event is rejected by the rate limiter when the wait notice goes out to its
  sender.\<close>

definition rejected :: "env \<Rightarrow> string \<Rightarrow> message \<Rightarrow> world \<Rightarrow> bool" where
  "rejected E sender msg s =
     (SendText sender WaitNotice \<in> set (newCalls s (snd (handleAudioMessage E sender msg s))))"

fun isInline :: "call \<Rightarrow> bool" where
  "isInline (GenerateContent [TextPart _, InlineData _ _]) = True"
| "isInline _ = False"

fun isUpload :: "call \<Rightarrow> bool" where
  "isUpload (UploadStart _ _) = True"
| "isUpload (UploadFinalize _ _ _) = True"
| "isUpload _ = False"

text \<open>The messages of a payload in the order in which the three nested iterations visit them.\<close>

definition allMessages :: "payload option \<Rightarrow> message list" where
  "allMessages p =
     (case p of
        None \<Rightarrow> []
      | Some (Payload None) \<Rightarrow> []
      | Some (Payload (Some es)) \<Rightarrow>
          concat (map (\<lambda>e. concat (map (\<lambda>c. case messages c of None \<Rightarrow> [] | Some ms \<Rightarrow> ms)
                                       (case changes e of None \<Rightarrow> [] | Some cs \<Rightarrow> cs))) es))"

text \<open>An environment in which nothing fails: every interaction takes 1.2 seconds, the voice
  note is an OGG file, the summary is one sentence.\<close>

definition calmEnv :: env where
  "calmEnv =
     \<lparr>META_VERIFY_TOKEN = Some ''s3cret'',
      RATE_LIMIT_MS = None,
      dateNow = (\<lambda>n. 100000 + 1200 * int n),
      fsFault = (\<lambda>n opn. None),
      tmpName = (\<lambda>n. ''Ab12Cd''),
      axiosPostMessage = (\<lambda>n to b. None),
      axiosGetMetadata = (\<lambda>n i. Inr (Some \<lparr>url = Some ''https://cdn/voice'', mime_type = Some ''audio/ogg; codecs=opus''\<rparr>)),
      axiosGetMedia = (\<lambda>n u. Inr (Buffer 4096 ''voice'')),
      ffmpegRun = (\<lambda>n p. Inr (Buffer 2048 ''voice-mp3'')),
      axiosPostUploadStart = (\<lambda>n l m. Inr (Some ''https://upload/1'')),
      axiosPostUpload = (\<lambda>n u b. Inr (Some ''files/1'')),
      axiosPostGenerate = (\<lambda>n ps. Inr (Some (Some [Some [Some ''Call me back.'']])))\<rparr>"

definition freshWorld :: world where
  "freshWorld =
     \<lparr>optOutStore = \<lparr>filePath = OPT_OUT_PATH, items = [], initialized = True\<rparr>,
      recentRequests = Map.empty,
      timers = [],
      jsonFiles = Map.empty,
      usageLog = [],
      audioFiles = Map.empty,
      calls = [],
      tick = 0\<rparr>"

definition audioFrom :: "string \<Rightarrow> string \<Rightarrow> message" where
  "audioFrom sender mediaId =
     \<lparr>msg_from = Some sender, msg_type = Some ''audio'', audio_id = Some mediaId, text_body = None\<rparr>"

definition textFrom :: "string \<Rightarrow> string \<Rightarrow> message" where
  "textFrom sender txt =
     \<lparr>msg_from = Some sender, msg_type = Some ''text'', audio_id = None, text_body = Some txt\<rparr>"

text \<open>Frame conditions: a step that leaves the opt-out store, the ledger, the timers and the
  JSON files alone and makes no call other than ones that are not the wait notice.\<close>

fun quietCall :: "call \<Rightarrow> bool" where
  "quietCall (SendText _ WaitNotice) = False"
| "quietCall _ = True"

definition frames :: "world \<Rightarrow> world \<Rightarrow> bool" where
  "frames s s' =
     (optOutStore s' = optOutStore s \<and> recentRequests s' = recentRequests s
      \<and> timers s' = timers s \<and> jsonFiles s' = jsonFiles s
      \<and> (\<exists>cs. calls s' = calls s @ cs \<and> list_all quietCall cs))"

definition framed :: "'a io \<Rightarrow> bool" where
  "framed m = (\<forall>s. frames s (snd (m s)))"

text \<open>A sender with a ledger entry 5 seconds before the first clock reading, the same sender
  opted out, and a store that has not been loaded yet.\<close>

definition throttledWorld :: world where
  "throttledWorld = freshWorld\<lparr>recentRequests := [''5215550001'' \<mapsto> 95000]\<rparr>"

definition optedOutWorld :: world where
  "optedOutWorld =
     freshWorld\<lparr>optOutStore := \<lparr>filePath = OPT_OUT_PATH, items = [''5215550001''], initialized = True\<rparr>,
       recentRequests := [''5215550001'' \<mapsto> 95000]\<rparr>"

definition stopStartWorld :: world where
  "stopStartWorld = freshWorld\<lparr>optOutStore := \<lparr>filePath = OPT_OUT_PATH, items = [], initialized = False\<rparr>,
      jsonFiles := [OPT_OUT_PATH \<mapsto> JArray [''5215550001'']]\<rparr>"

text \<open>A world with one audio file of \<open>n\<close> bytes; an environment in which the first send
  fails; a batch of two text messages; an environment whose summaries are blank, and the same
  with a failing send of the "could not understand" reply.\<close>

definition clipWorld :: "nat \<Rightarrow> world" where
  "clipWorld n = freshWorld\<lparr>audioFiles := [''/tmp/wa-audio-Ab12Cd/input.mp3'' \<mapsto> Buffer n ''clip'']\<rparr>"

definition failingSendEnv :: env where
  "failingSendEnv =
     calmEnv\<lparr>axiosPostMessage :=
       (\<lambda>n to b. if n = 0 then Some (ResponseError 500 ''Internal Server Error'' ''{}'') else None)\<rparr>"

definition twoTexts :: payload where
  "twoTexts =
     Payload (Some [Entry (Some [Change (Some [textFrom ''5215550001'' ''hello'',
                                                     textFrom ''5215550002'' ''hello''])])])"

definition muteEnv :: env where
  "muteEnv = calmEnv\<lparr>axiosPostGenerate := (\<lambda>n ps. Inr (Some (Some [Some [Some ''  '', None]])))\<rparr>"

definition deafEnv :: env where
  "deafEnv =
     muteEnv\<lparr>axiosPostMessage :=
       (\<lambda>n to b. if b = NotUnderstood then Some (ResponseError 500 ''Internal Server Error'' ''{}'') else None)\<rparr>"


section \<open>The ledger timer\<close>

lemma timerFires_untouched:
  "recentRequests s sender = Some stamp \<Longrightarrow> recentRequests (timerFires sender stamp s) sender = None"
  by (simp add: timerFires_def)

lemma timerFires_restamped:
  "recentRequests s sender \<noteq> Some stamp \<Longrightarrow> timerFires sender stamp s = s"
  by (simp add: timerFires_def)

section \<open>The opt-out store: lemmas\<close>

lemma set_foldl_setAdd: "set (foldl (\<lambda>acc x. setAdd x acc) ys xs) = set ys \<union> set xs"
  by (induction xs arbitrary: ys) (auto simp: setAdd_def)

lemma init_initialized: "initialized (optOutStore s) \<Longrightarrow> init E s = (Inr (), s)"
  by (simp add: init_def)

lemma init_no_fault:
  assumes "\<forall>n opn. fsFault E n opn = None"
  shows "\<exists>s'. init E s = (Inr (), s') \<and> initialized (optOutStore s')
           \<and> filePath (optOutStore s') = filePath (optOutStore s)
           \<and> jsonFiles s' = jsonFiles s"
  using assms
  by (auto simp: init_def fsCall_def advance_def Let_def split: option.splits json.splits)

lemma add_no_fault:
  assumes "\<forall>n opn. fsFault E n opn = None"
  shows "\<exists>s'. add E i s = (Inr (), s') \<and> initialized (optOutStore s')
           \<and> filePath (optOutStore s') = filePath (optOutStore s)
           \<and> i \<in> set (items (optOutStore s'))
           \<and> jsonFiles s' (filePath (optOutStore s)) = Some (JArray (items (optOutStore s')))
           \<and> (initialized (optOutStore s) \<longrightarrow>
                items (optOutStore s') = setAdd i (items (optOutStore s))
                \<and> jsonFiles s' = (jsonFiles s)(filePath (optOutStore s) \<mapsto> JArray (setAdd i (items (optOutStore s)))))"
proof -
  obtain s0 where s0: "init E s = (Inr (), s0)" "initialized (optOutStore s0)"
      "filePath (optOutStore s0) = filePath (optOutStore s)" "jsonFiles s0 = jsonFiles s"
    using init_no_fault [OF assms] by blast
  have i: "initialized (optOutStore s) \<Longrightarrow> s0 = s"
    using s0(1) by (simp add: init_initialized)
  show ?thesis
    using assms s0 i
    by (auto simp: add_def bindE_def save_def fsCall_def advance_def Let_def setAdd_def)
qed

lemma remove_no_fault:
  assumes "\<forall>n opn. fsFault E n opn = None"
  shows "\<exists>s'. remove E i s = (Inr (), s') \<and> initialized (optOutStore s')
           \<and> filePath (optOutStore s') = filePath (optOutStore s)
           \<and> i \<notin> set (items (optOutStore s'))
           \<and> jsonFiles s' (filePath (optOutStore s)) = Some (JArray (items (optOutStore s')))
           \<and> (initialized (optOutStore s) \<longrightarrow>
                items (optOutStore s') = setDelete i (items (optOutStore s))
                \<and> jsonFiles s' = (jsonFiles s)(filePath (optOutStore s) \<mapsto> JArray (setDelete i (items (optOutStore s)))))"
proof -
  obtain s0 where s0: "init E s = (Inr (), s0)" "initialized (optOutStore s0)"
      "filePath (optOutStore s0) = filePath (optOutStore s)" "jsonFiles s0 = jsonFiles s"
    using init_no_fault [OF assms] by blast
  have i: "initialized (optOutStore s) \<Longrightarrow> s0 = s"
    using s0(1) by (simp add: init_initialized)
  show ?thesis
    using assms s0 i
    by (auto simp: remove_def bindE_def save_def fsCall_def advance_def Let_def setDelete_def)
qed

lemma has_initialized:
  "initialized (optOutStore s) \<Longrightarrow> has E i s = (Inr (i \<in> set (items (optOutStore s))), s)"
  by (simp add: has_def bindE_def init_initialized)

lemma setAdd_member: "i \<in> set xs \<Longrightarrow> setAdd i xs = xs"
  by (simp add: setAdd_def)

lemma setDelete_absent: "i \<notin> set xs \<Longrightarrow> setDelete i xs = xs"
  by (auto simp: setDelete_def filter_id_conv)

lemma init_result:
  "init E s = (r, s0) \<Longrightarrow>
     calls s0 = calls s \<and> recentRequests s0 = recentRequests s \<and> timers s0 = timers s
     \<and> usageLog s0 = usageLog s \<and> set (items (optOutStore s)) \<subseteq> set (items (optOutStore s0))
     \<and> (r = Inr () \<longrightarrow> initialized (optOutStore s0))"
  by (auto simp: init_def fsCall_def advance_def Let_def set_foldl_setAdd
        split: if_splits option.splits json.splits)

lemma has_result:
  assumes "has E i s = (r, s0)"
  shows "calls s0 = calls s \<and> recentRequests s0 = recentRequests s \<and> timers s0 = timers s
     \<and> usageLog s0 = usageLog s \<and> set (items (optOutStore s)) \<subseteq> set (items (optOutStore s0))"
proof -
  obtain r1 s1 where i: "init E s = (r1, s1)" by (cases "init E s")
  show ?thesis
    using init_result [OF i] assms i
    by (cases r1) (auto simp: has_def bindE_def)
qed

lemma has_Inr:
  assumes "has E i s = (Inr b, s0)"
  shows "initialized (optOutStore s0) \<and> b = (i \<in> set (items (optOutStore s0)))"
proof -
  obtain r1 s1 where i: "init E s = (r1, s1)" by (cases "init E s")
  show ?thesis
    using init_result [OF i] assms i
    by (cases r1) (auto simp: has_def bindE_def)
qed

lemma save_result:
  "save E s = (r, s1) \<Longrightarrow> calls s1 = calls s \<and> optOutStore s1 = optOutStore s"
  by (auto simp: save_def fsCall_def advance_def Let_def split: option.splits)

lemma add_result:
  assumes "add E i s = (r, s1)"
  shows "calls s1 = calls s \<and> (r = Inr () \<longrightarrow> i \<in> set (items (optOutStore s1)))"
proof -
  obtain r0 s0 where i: "init E s = (r0, s0)" by (cases "init E s")
  note ir = init_result [OF i]
  show ?thesis
  proof (cases r0)
    case (Inl e)
    then show ?thesis using assms i ir by (auto simp: add_def bindE_def)
  next
    case (Inr u)
    let ?t = "s0\<lparr>optOutStore := (optOutStore s0)\<lparr>items := setAdd i (items (optOutStore s0))\<rparr>\<rparr>"
    have "save E ?t = (r, s1)" using assms i Inr by (simp add: add_def bindE_def)
    from save_result [OF this] show ?thesis using ir by (simp add: setAdd_def)
  qed
qed

lemma remove_result:
  assumes "remove E i s = (r, s1)"
  shows "calls s1 = calls s \<and> (r = Inr () \<longrightarrow> i \<notin> set (items (optOutStore s1)))"
proof -
  obtain r0 s0 where i: "init E s = (r0, s0)" by (cases "init E s")
  note ir = init_result [OF i]
  show ?thesis
  proof (cases r0)
    case (Inl e)
    then show ?thesis using assms i ir by (auto simp: remove_def bindE_def)
  next
    case (Inr u)
    let ?t = "s0\<lparr>optOutStore := (optOutStore s0)\<lparr>items := setDelete i (items (optOutStore s0))\<rparr>\<rparr>"
    have "save E ?t = (r, s1)" using assms i Inr by (simp add: remove_def bindE_def)
    from save_result [OF this] show ?thesis using ir by (simp add: setDelete_def)
  qed
qed

section \<open>Frame lemmas\<close>

lemma frames_refl [simp]: "frames s s"
  by (simp add: frames_def)

lemma frames_trans: "frames s t \<Longrightarrow> frames t u \<Longrightarrow> frames s u"
  by (auto simp: frames_def)

lemma frames_advance [simp]: "frames s (advance s)"
  by (simp add: frames_def advance_def)

lemma framed_bindE: "framed m \<Longrightarrow> (\<And>v. framed (f v)) \<Longrightarrow> framed (bindE m f)"
  unfolding framed_def bindE_def
proof (intro allI)
  fix s
  assume m: "\<forall>s. frames s (snd (m s))" and f: "\<And>v. \<forall>s. frames s (snd (f v s))"
  obtain r s1 where ms: "m s = (r, s1)" by (cases "m s")
  have 1: "frames s s1" using m [rule_format, of s] ms by simp
  show "frames s (snd (case m s of (Inl e, s') \<Rightarrow> (Inl e, s') | (Inr v, s') \<Rightarrow> f v s'))"
  proof (cases r)
    case (Inl e)
    then show ?thesis using ms 1 by simp
  next
    case (Inr v)
    then show ?thesis using ms 1 f [of v, rule_format, of s1] by (auto intro: frames_trans)
  qed
qed

lemma framed_returnE [simp]: "framed (returnE v)"
  by (simp add: framed_def returnE_def)

lemma framed_throwE [simp]: "framed (throwE e)"
  by (simp add: framed_def throwE_def)

lemma framed_fsCall [simp]: "framed (fsCall E opn)"
  by (simp add: framed_def fsCall_def frames_def advance_def split: option.splits)

lemma framed_outbound: "quietCall c \<Longrightarrow> framed (outbound c respond)"
  by (simp add: framed_def outbound_def frames_def advance_def)

lemma framed_logUsage [simp]: "framed (logUsage E ev)"
  unfolding logUsage_def
  by (rule framed_bindE, simp)
     (auto simp: framed_def Date_now_def fsCall_def frames_def advance_def split: option.splits)

lemma framed_send: "b \<noteq> WaitNotice \<Longrightarrow> framed (sendWhatsAppText E to b)"
  unfolding sendWhatsAppText_def by (rule framed_outbound) (cases b; simp)

lemma framed_fetch [simp]: "framed (fetchMediaMetadata E i)"
  unfolding fetchMediaMetadata_def by (rule framed_outbound) simp

lemma framed_download [simp]: "framed (downloadMediaFile E u)"
  unfolding downloadMediaFile_def by (rule framed_outbound) simp

lemma framed_mkdtemp [simp]: "framed (mkdtemp E p)"
  by (simp add: framed_def mkdtemp_def frames_def advance_def split: option.splits)

lemma framed_fsWriteFile [simp]: "framed (fsWriteFile E p b)"
  unfolding fsWriteFile_def
  by (rule framed_bindE, simp) (simp add: framed_def frames_def)

lemma framed_fsStat [simp]: "framed (fsStat E p)"
  unfolding fsStat_def
  by (rule framed_bindE, simp) (simp add: framed_def split: option.splits)

lemma framed_fsReadFile [simp]: "framed (fsReadFile E p)"
  unfolding fsReadFile_def
  by (rule framed_bindE, simp) (simp add: framed_def split: option.splits)

lemma frames_fsRemove [simp]: "frames s (fsRemove E d s)"
  by (simp add: fsRemove_def fsCall_def frames_def advance_def split: option.splits)

lemma framed_convert [simp]: "framed (convertToMp3IfNeeded E p m)"
proof -
  have "framed (bindE (outbound (Transcode p (p @ ''.mp3'')) (\<lambda>n. ffmpegRun E n p))
           (\<lambda>out s. (Inr (p @ ''.mp3'', ''audio/mpeg''),
                     s\<lparr>audioFiles := (audioFiles s)(p @ ''.mp3'' \<mapsto> out)\<rparr>)))"
    by (rule framed_bindE, rule framed_outbound, simp) (simp add: framed_def frames_def)
  then show ?thesis
    by (simp add: convertToMp3IfNeeded_def Let_def)
qed

lemma framed_startResumableUpload [simp]: "framed (startResumableUpload E b m)"
proof -
  have inner: "framed (bindE (outbound (UploadStart (byteLength b) m)
                   (\<lambda>n. axiosPostUploadStart E n (byteLength b) m))
            (\<lambda>uploadUrl.
               case uploadUrl of
                 None \<Rightarrow> throwE (Error ''Gemini upload URL missing from response.'')
               | Some u \<Rightarrow>
                   if u = [] then throwE (Error ''Gemini upload URL missing from response.'')
                   else
                     bindE (outbound (UploadFinalize u b m)
                              (\<lambda>n. axiosPostUpload E n u b))
                       (\<lambda>fileUri.
                          case fileUri of
                            None \<Rightarrow> throwE (Error ''Gemini file URI missing after upload.'')
                          | Some f \<Rightarrow>
                              if f = [] then throwE (Error ''Gemini file URI missing after upload.'')
                              else returnE f)))"
    by (auto intro!: framed_bindE framed_outbound split: option.splits)
  show ?thesis
    unfolding framed_def
  proof
    fix s
    have "frames (advance s) (snd (startResumableUpload E b m s))"
      using inner [unfolded framed_def, rule_format, of "advance s"]
      by (simp add: startResumableUpload_def Date_now_def)
    then show "frames s (snd (startResumableUpload E b m s))"
      using frames_trans frames_advance by blast
  qed
qed

lemma framed_generateContent [simp]: "framed (generateContent E ps)"
  unfolding generateContent_def
  by (auto intro!: framed_bindE framed_outbound)

lemma framed_summarize [simp]: "framed (summarizeWithGemini E p m)"
  unfolding summarizeWithGemini_def
  by (auto intro!: framed_bindE)

lemma framed_audioDeliver [simp]: "framed (audioDeliver E sender i p m)"
  unfolding audioDeliver_def
  by (auto intro!: framed_bindE framed_send split: option.splits if_splits)

lemma framed_audioCatch [simp]: "framed (audioCatch E sender i err)"
  unfolding framed_def
proof
  fix s
  have 1: "frames s (snd (sendWhatsAppText E sender Apology s))"
    using framed_send [of Apology E sender] by (simp add: framed_def)
  have 2: "frames (snd (sendWhatsAppText E sender Apology s))
      (snd (logUsage E (SummaryFailed sender i (extractError err)) (snd (sendWhatsAppText E sender Apology s))))"
    using framed_logUsage by (simp add: framed_def)
  show "frames s (snd (audioCatch E sender i err s))"
    using frames_trans [OF 1 2]
    by (cases "sendWhatsAppText E sender Apology s") (simp add: audioCatch_def)
qed

lemma framedD: "framed m \<Longrightarrow> m s = (r, s') \<Longrightarrow> frames s s'"
  by (auto simp: framed_def dest: spec [of _ s])

lemma frames_audioPrepare: "audioPrepare E sender i s = (rt, s') \<Longrightarrow> frames s s'"
proof -
  assume run: "audioPrepare E sender i s = (rt, s')"
  let ?A = "bindE (logUsage E (AudioReceived sender i)) (\<lambda>_.
           bindE (fetchMediaMetadata E i) (\<lambda>md.
             case md of
               None \<Rightarrow> throwE (Error ''Media download URL not available.'')
             | Some m \<Rightarrow>
                 (case url m of
                    None \<Rightarrow> throwE (Error ''Media download URL not available.'')
                  | Some u \<Rightarrow>
                      if u = [] then throwE (Error ''Media download URL not available.'')
                      else returnE (m, u))))"
  have fa: "framed ?A"
    by (auto intro!: framed_bindE split: option.splits)
  obtain r s1 where a: "?A s = (r, s1)" by (cases "?A s")
  have f1: "frames s s1" using framedD [OF fa a] .
  show ?thesis
  proof (cases r)
    case (Inl e)
    then show ?thesis using run a f1 by (simp add: audioPrepare_def)
  next
    case (Inr mu)
    obtain m u where mu: "mu = (m, u)" by (cases mu)
    obtain r2 s2 where b: "mkdtemp E ''/tmp/wa-audio-'' s1 = (r2, s2)"
      by (cases "mkdtemp E ''/tmp/wa-audio-'' s1")
    have f2: "frames s s2" using frames_trans [OF f1 framedD [OF framed_mkdtemp b]] .
    show ?thesis
    proof (cases r2)
      case (Inl e)
      then show ?thesis using run a Inr mu b f2 by (simp add: audioPrepare_def)
    next
      case (Inr tempDir)
      let ?p = "tempDir @ ''/input'' @ extensionFromMime (normalizeMimeType (mime_type m))"
      let ?B = "bindE (downloadMediaFile E u) (\<lambda>audioBuffer.
                        bindE (fsWriteFile E ?p audioBuffer) (\<lambda>_.
                          convertToMp3IfNeeded E ?p (normalizeMimeType (mime_type m))))"
      have fb: "framed ?B" by (auto intro!: framed_bindE)
      obtain r3 s3 where c: "?B s2 = (r3, s3)" by (cases "?B s2")
      have f3: "frames s s3" using frames_trans [OF f2 framedD [OF fb c]] .
      show ?thesis
        using run a \<open>r = Inr mu\<close> mu b Inr c f3 by (simp add: audioPrepare_def Let_def)
    qed
  qed
qed

lemma audioFinally_props:
  "optOutStore (audioFinally E sender t s) = optOutStore s
   \<and> jsonFiles (audioFinally E sender t s) = jsonFiles s
   \<and> calls (audioFinally E sender t s) = calls s
   \<and> usageLog (audioFinally E sender t s) = usageLog s
   \<and> 0 < tick (audioFinally E sender t s)
   \<and> recentRequests (audioFinally E sender t s) sender = Some (dateNow E (tick (audioFinally E sender t s) - 1))
   \<and> timers (audioFinally E sender t s) = timers s @ [(sender, dateNow E (tick (audioFinally E sender t s) - 1))]"
  by (cases t)
     (simp_all add: audioFinally_def Date_now_def advance_def fsRemove_def fsCall_def Let_def
        split: option.splits)

lemma audioPipeline_shape:
  "\<exists>t s2. frames s s2 \<and> snd (audioPipeline E sender i s) = audioFinally E sender t s2"
proof -
  obtain r t s1 where p: "audioPrepare E sender i s = ((r, t), s1)"
    by (cases "audioPrepare E sender i s") auto
  have f1: "frames s s1" using frames_audioPrepare [OF p] .
  show ?thesis
  proof (cases r)
    case (Inl err)
    obtain r2 s2 where c: "audioCatch E sender i err s1 = (r2, s2)"
      by (cases "audioCatch E sender i err s1")
    have "frames s s2" using frames_trans [OF f1 framedD [OF framed_audioCatch c]] .
    then show ?thesis using p Inl c by (auto simp: audioPipeline_def)
  next
    case (Inr pm)
    obtain mp3 mime where pm: "pm = (mp3, mime)" by (cases pm)
    obtain r2 s2 where d: "audioDeliver E sender i mp3 mime s1 = (r2, s2)"
      by (cases "audioDeliver E sender i mp3 mime s1")
    have f2: "frames s s2" using frames_trans [OF f1 framedD [OF framed_audioDeliver d]] .
    show ?thesis
    proof (cases r2)
      case (Inl err)
      obtain r3 s3 where c: "audioCatch E sender i err s2 = (r3, s3)"
        by (cases "audioCatch E sender i err s2")
      have "frames s s3" using frames_trans [OF f2 framedD [OF framed_audioCatch c]] .
      then show ?thesis using p Inr pm d Inl c by (auto simp: audioPipeline_def)
    next
      case (Inr u)
      then show ?thesis using p \<open>r = Inr pm\<close> pm d f2 by (auto simp: audioPipeline_def)
    qed
  qed
qed

lemma audioPipeline_props:
  "optOutStore (snd (audioPipeline E sender i s)) = optOutStore s
   \<and> (\<exists>cs. calls (snd (audioPipeline E sender i s)) = calls s @ cs \<and> list_all quietCall cs)
   \<and> 0 < tick (snd (audioPipeline E sender i s))
   \<and> recentRequests (snd (audioPipeline E sender i s)) sender
       = Some (dateNow E (tick (snd (audioPipeline E sender i s)) - 1))
   \<and> timers (snd (audioPipeline E sender i s))
       = timers s @ [(sender, dateNow E (tick (snd (audioPipeline E sender i s)) - 1))]"
proof -
  obtain t s2 where a: "frames s s2" "snd (audioPipeline E sender i s) = audioFinally E sender t s2"
    using audioPipeline_shape by blast
  show ?thesis
    using a(1) audioFinally_props [of E sender t s2]
    unfolding a(2) by (simp add: frames_def)
qed

section \<open>The audio handler: lemmas\<close>

lemma handleAudio_after_has:
  assumes "has E sender s = (Inr False, s0)" "audio_id msg = Some i" "i \<noteq> []"
  shows "handleAudioMessage E sender msg s =
     (if dateNow E (tick s0) - (case recentRequests s0 sender of None \<Rightarrow> 0 | Some t \<Rightarrow> t)
           < RATE_LIMIT_WINDOW_MS E
      then bindE (sendWhatsAppText E sender WaitNotice) (\<lambda>_. logUsage E (RateLimited sender i))
             (advance s0)
      else audioPipeline E sender i
             ((advance s0)\<lparr>recentRequests := (recentRequests s0)(sender \<mapsto> dateNow E (tick s0))\<rparr>))"
  using assms
  by (simp add: handleAudioMessage_def bindE_def Date_now_def Let_def advance_def)

lemma wait_notice_run:
  "calls (snd (bindE (sendWhatsAppText E sender WaitNotice) (\<lambda>_. logUsage E (RateLimited sender i)) s))
     = calls s @ [SendText sender WaitNotice]
   \<and> recentRequests (snd (bindE (sendWhatsAppText E sender WaitNotice) (\<lambda>_. logUsage E (RateLimited sender i)) s))
     = recentRequests s
   \<and> timers (snd (bindE (sendWhatsAppText E sender WaitNotice) (\<lambda>_. logUsage E (RateLimited sender i)) s))
     = timers s
   \<and> (axiosPostMessage E (tick s) sender WaitNotice = None
        \<and> fsFault E (tick s + 1) (EnsureDir DATA_DIR) = None
        \<and> fsFault E (tick s + 3) (AppendFile USAGE_LOG_PATH) = None
      \<longrightarrow> fst (bindE (sendWhatsAppText E sender WaitNotice) (\<lambda>_. logUsage E (RateLimited sender i)) s) = Inr ()
        \<and> usageLog (snd (bindE (sendWhatsAppText E sender WaitNotice) (\<lambda>_. logUsage E (RateLimited sender i)) s))
            = usageLog s @ [(dateNow E (tick s + 2), RateLimited sender i)])"
  by (simp add: bindE_def sendWhatsAppText_def outbound_def logUsage_def fsCall_def Date_now_def
        advance_def eval_nat_numeral split: option.splits)

lemma newCalls_append: "calls s' = calls s @ cs \<Longrightarrow> newCalls s s' = cs"
  by (simp add: newCalls_def)

lemma quiet_no_wait: "list_all quietCall cs \<Longrightarrow> SendText sender WaitNotice \<notin> set cs"
  by (auto simp: list_all_iff)

lemma rejected_iff:
  assumes "has E sender s = (Inr False, s0)" "audio_id msg = Some i" "i \<noteq> []"
  shows "rejected E sender msg s \<longleftrightarrow>
     dateNow E (tick s0) - (case recentRequests s sender of None \<Rightarrow> 0 | Some t \<Rightarrow> t)
        < RATE_LIMIT_WINDOW_MS E"
proof -
  have h: "calls s0 = calls s" "recentRequests s0 = recentRequests s"
    using has_result [OF assms(1)] by simp_all
  show ?thesis
  proof (cases "dateNow E (tick s0) - (case recentRequests s sender of None \<Rightarrow> 0 | Some t \<Rightarrow> t)
        < RATE_LIMIT_WINDOW_MS E")
    case True
    then have run: "handleAudioMessage E sender msg s =
      bindE (sendWhatsAppText E sender WaitNotice) (\<lambda>_. logUsage E (RateLimited sender i))
        (advance s0)"
      using handleAudio_after_has [OF assms] h(2) by simp
    have "calls (snd (handleAudioMessage E sender msg s)) = calls s @ [SendText sender WaitNotice]"
      unfolding run using wait_notice_run [of E sender i "advance s0"] h by (simp add: advance_def)
    then show ?thesis using True by (simp add: rejected_def newCalls_append)
  next
    case False
    let ?s3 = "(advance s0)\<lparr>recentRequests := (recentRequests s0)(sender \<mapsto> dateNow E (tick s0))\<rparr>"
    have run: "handleAudioMessage E sender msg s = audioPipeline E sender i ?s3"
      using False handleAudio_after_has [OF assms] h(2) by simp
    obtain cs where cs: "calls (snd (audioPipeline E sender i ?s3)) = calls ?s3 @ cs"
        "list_all quietCall cs"
      using audioPipeline_props [of E sender i ?s3] by blast
    have "calls (snd (handleAudioMessage E sender msg s)) = calls s @ cs"
      unfolding run using cs(1) h by (simp add: advance_def)
    then show ?thesis using False quiet_no_wait [OF cs(2)] by (simp add: rejected_def newCalls_append)
  qed
qed

lemma generate_no_text:
  "axiosPostGenerate E (tick s) ps = Inr d \<Longrightarrow> extractText d = None
     \<Longrightarrow> fst (generateContent E ps s) = Inr None"
  by (simp add: generateContent_def bindE_def outbound_def returnE_def)

lemma summarize_result:
  "summarizeWithGemini E p m s = (Inr r, s') \<Longrightarrow>
     \<exists>n ps d. axiosPostGenerate E n ps = Inr d \<and> r = extractText d"
  by (auto simp: summarizeWithGemini_def generateContent_def bindE_def outbound_def returnE_def
        split: prod.splits sum.splits if_splits)

lemma deliver_no_text:
  assumes "summarizeWithGemini E p m s4 = (Inr None, s5)"
    and "axiosPostMessage E (tick s5) sender NotUnderstood = None"
    and "fsFault E (tick s5 + 1) (EnsureDir DATA_DIR) = None"
    and "fsFault E (tick s5 + 3) (AppendFile USAGE_LOG_PATH) = None"
  shows "fst (audioDeliver E sender i p m s4) = Inr ()
     \<and> calls (snd (audioDeliver E sender i p m s4)) = calls s5 @ [SendText sender NotUnderstood]
     \<and> usageLog (snd (audioDeliver E sender i p m s4))
         = usageLog s5 @ [(dateNow E (tick s5 + 2), SummarySent sender i False)]"
  using assms
  by (simp add: audioDeliver_def bindE_def sendWhatsAppText_def outbound_def logUsage_def
        fsCall_def Date_now_def advance_def truthy_def eval_nat_numeral)

text \<open>Evaluation of the model on concrete inputs.\<close>

lemmas eval_defs =
  handleAudioMessage_def audioPipeline_def audioPrepare_def audioDeliver_def audioCatch_def
  audioFinally_def summarizeWithGemini_def generateContent_def startResumableUpload_def
  convertToMp3IfNeeded_def fsRemove_def fsReadFile_def fsStat_def fsWriteFile_def mkdtemp_def
  extensionFromMime_def normalizeMimeType_def downloadMediaFile_def fetchMediaMetadata_def
  sendWhatsAppText_def logUsage_def outbound_def has_def add_def remove_def save_def init_def
  Date_now_def fsCall_def advance_def
  bindE_def returnE_def throwE_def extractText_def truthy_def trim_def toLowerCase_def
  toLowerChar_def isWhiteSpace_def char_of_eq_iff
  RATE_LIMIT_WINDOW_MS_def MAX_INLINE_BYTES_def DATA_DIR_def OPT_OUT_PATH_def USAGE_LOG_PATH_def
  dirname_def setAdd_def setDelete_def Let_def

lemma calm_first_event:
  "optOutStore (snd (handleAudioMessage calmEnv ''5215550001'' (audioFrom ''5215550001'' ''media-1'') freshWorld))
     = optOutStore freshWorld"
  "tick (snd (handleAudioMessage calmEnv ''5215550001'' (audioFrom ''5215550001'' ''media-1'') freshWorld)) = 18"
  "recentRequests (snd (handleAudioMessage calmEnv ''5215550001'' (audioFrom ''5215550001'' ''media-1'') freshWorld)) ''5215550001'' = Some 120400"
  by (simp_all add: eval_defs calmEnv_def freshWorld_def audioFrom_def)

lemma deliver_no_text_calls:
  assumes "summarizeWithGemini E p m s4 = (Inr None, s5)"
  shows "calls (snd (audioDeliver E sender i p m s4)) = calls s5 @ [SendText sender NotUnderstood]"
  using assms
  by (simp add: audioDeliver_def bindE_def sendWhatsAppText_def outbound_def logUsage_def
        fsCall_def Date_now_def advance_def truthy_def split: option.splits)

lemma deliver_no_text_throws:
  assumes "summarizeWithGemini E p m s4 = (Inr None, s5)"
    and "axiosPostMessage E (tick s5) sender NotUnderstood = Some e"
  shows "audioDeliver E sender i p m s4
           = (Inl e, advance (s5\<lparr>calls := calls s5 @ [SendText sender NotUnderstood]\<rparr>))"
  using assms
  by (simp add: audioDeliver_def bindE_def sendWhatsAppText_def outbound_def)

lemma catch_run:
  "calls (snd (audioCatch E sender i err s)) = calls s @ [SendText sender Apology]
   \<and> (fsFault E (tick s + 1) (EnsureDir DATA_DIR) = None
        \<and> fsFault E (tick s + 3) (AppendFile USAGE_LOG_PATH) = None
      \<longrightarrow> fst (audioCatch E sender i err s) = Inr ()
        \<and> usageLog (snd (audioCatch E sender i err s))
            = usageLog s @ [(dateNow E (tick s + 2), SummaryFailed sender i (extractError err))])"
  by (simp add: audioCatch_def sendWhatsAppText_def outbound_def logUsage_def bindE_def
        fsCall_def Date_now_def advance_def eval_nat_numeral split: option.splits)

lemma mute_prepare:
  "fst (audioPrepare muteEnv ''5215550001'' ''media-4''
      ((advance freshWorld)\<lparr>recentRequests := (recentRequests freshWorld)(''5215550001'' \<mapsto> dateNow muteEnv (tick freshWorld))\<rparr>))
    = (Inr (''/tmp/wa-audio-Ab12Cd/input.ogg.mp3'', ''audio/mpeg''), Some ''/tmp/wa-audio-Ab12Cd'')"
  by (simp add: eval_defs muteEnv_def calmEnv_def freshWorld_def)

lemma mute_summarize:
  "fst (summarizeWithGemini muteEnv ''/tmp/wa-audio-Ab12Cd/input.ogg.mp3'' ''audio/mpeg''
     (snd (audioPrepare muteEnv ''5215550001'' ''media-4''
      ((advance freshWorld)\<lparr>recentRequests := (recentRequests freshWorld)(''5215550001'' \<mapsto> dateNow muteEnv (tick freshWorld))\<rparr>))))
    = Inr None"
  "calls (snd (summarizeWithGemini muteEnv ''/tmp/wa-audio-Ab12Cd/input.ogg.mp3'' ''audio/mpeg''
     (snd (audioPrepare muteEnv ''5215550001'' ''media-4''
      ((advance freshWorld)\<lparr>recentRequests := (recentRequests freshWorld)(''5215550001'' \<mapsto> dateNow muteEnv (tick freshWorld))\<rparr>)))))
    = [FetchMetadata ''media-4'', DownloadMedia ''https://cdn/voice'',
        Transcode ''/tmp/wa-audio-Ab12Cd/input.ogg'' ''/tmp/wa-audio-Ab12Cd/input.ogg.mp3'',
        GenerateContent [TextPart SUMMARY_PROMPT, InlineData ''audio/mpeg'' (Base64 (Buffer 2048 ''voice-mp3''))]]"
  "usageLog (snd (summarizeWithGemini muteEnv ''/tmp/wa-audio-Ab12Cd/input.ogg.mp3'' ''audio/mpeg''
     (snd (audioPrepare muteEnv ''5215550001'' ''media-4''
      ((advance freshWorld)\<lparr>recentRequests := (recentRequests freshWorld)(''5215550001'' \<mapsto> dateNow muteEnv (tick freshWorld))\<rparr>)))))
    = [(102400, AudioReceived ''5215550001'' ''media-4'')]"
  by (simp_all add: eval_defs muteEnv_def calmEnv_def freshWorld_def)

lemma deaf_prepare:
  "fst (audioPrepare deafEnv ''5215550001'' ''media-4''
      ((advance freshWorld)\<lparr>recentRequests := (recentRequests freshWorld)(''5215550001'' \<mapsto> dateNow deafEnv (tick freshWorld))\<rparr>))
    = (Inr (''/tmp/wa-audio-Ab12Cd/input.ogg.mp3'', ''audio/mpeg''), Some ''/tmp/wa-audio-Ab12Cd'')"
  by (simp add: eval_defs deafEnv_def muteEnv_def calmEnv_def freshWorld_def)

lemma deaf_summarize:
  "fst (summarizeWithGemini deafEnv ''/tmp/wa-audio-Ab12Cd/input.ogg.mp3'' ''audio/mpeg''
     (snd (audioPrepare deafEnv ''5215550001'' ''media-4''
      ((advance freshWorld)\<lparr>recentRequests := (recentRequests freshWorld)(''5215550001'' \<mapsto> dateNow deafEnv (tick freshWorld))\<rparr>))))
    = Inr None"
  "calls (snd (summarizeWithGemini deafEnv ''/tmp/wa-audio-Ab12Cd/input.ogg.mp3'' ''audio/mpeg''
     (snd (audioPrepare deafEnv ''5215550001'' ''media-4''
      ((advance freshWorld)\<lparr>recentRequests := (recentRequests freshWorld)(''5215550001'' \<mapsto> dateNow deafEnv (tick freshWorld))\<rparr>)))))
    = [FetchMetadata ''media-4'', DownloadMedia ''https://cdn/voice'',
        Transcode ''/tmp/wa-audio-Ab12Cd/input.ogg'' ''/tmp/wa-audio-Ab12Cd/input.ogg.mp3'',
        GenerateContent [TextPart SUMMARY_PROMPT, InlineData ''audio/mpeg'' (Base64 (Buffer 2048 ''voice-mp3''))]]"
  "usageLog (snd (summarizeWithGemini deafEnv ''/tmp/wa-audio-Ab12Cd/input.ogg.mp3'' ''audio/mpeg''
     (snd (audioPrepare deafEnv ''5215550001'' ''media-4''
      ((advance freshWorld)\<lparr>recentRequests := (recentRequests freshWorld)(''5215550001'' \<mapsto> dateNow deafEnv (tick freshWorld))\<rparr>)))))
    = [(102400, AudioReceived ''5215550001'' ''media-4'')]"
  by (simp_all add: eval_defs deafEnv_def muteEnv_def calmEnv_def freshWorld_def)

section \<open>Text commands and the dispatcher: lemmas\<close>

lemma send_then_log:
  "calls (snd (bindE (sendWhatsAppText E to b) (\<lambda>_. logUsage E ev) s)) = calls s @ [SendText to b]
   \<and> optOutStore (snd (bindE (sendWhatsAppText E to b) (\<lambda>_. logUsage E ev) s)) = optOutStore s"
  by (simp add: bindE_def sendWhatsAppText_def outbound_def logUsage_def fsCall_def Date_now_def
        advance_def split: option.splits)

lemma toLowerCase_Nil [simp]: "toLowerCase t = [] \<longleftrightarrow> t = []"
  by (simp add: toLowerCase_def)

lemma store_then_reply:
  assumes "\<And>r s1. m s = (r, s1) \<Longrightarrow> calls s1 = calls s \<and> (r = Inr () \<longrightarrow> P (optOutStore s1))"
  shows "newCalls s (snd (bindE m (\<lambda>_. bindE (sendWhatsAppText E to b) (\<lambda>_. logUsage E ev)) s))
           = (if fst (m s) = Inr () then [SendText to b] else [])
       \<and> (fst (m s) = Inr () \<longrightarrow>
            P (optOutStore (snd (bindE m (\<lambda>_. bindE (sendWhatsAppText E to b) (\<lambda>_. logUsage E ev)) s))))"
proof -
  obtain r s1 where ms: "m s = (r, s1)" by (cases "m s")
  note a = assms [OF ms]
  show ?thesis
  proof (cases r)
    case (Inl e)
    then show ?thesis using ms a by (simp add: bindE_def newCalls_def)
  next
    case (Inr u)
    have "bindE m (\<lambda>_. bindE (sendWhatsAppText E to b) (\<lambda>_. logUsage E ev)) s
        = bindE (sendWhatsAppText E to b) (\<lambda>_. logUsage E ev) s1"
      using ms Inr by (simp add: bindE_def)
    then show ?thesis
      using ms Inr a send_then_log [of E "to" b ev s1] by (simp add: newCalls_def)
  qed
qed

lemma bindE_assoc: "bindE (bindE m f) g = bindE m (\<lambda>v. bindE (f v) g)"
  by (rule ext) (simp add: bindE_def split: prod.splits sum.splits)

lemma bindE_returnE: "bindE (returnE v) f = f v"
  by (rule ext) (simp add: bindE_def returnE_def)

lemma bindE_unit: "bindE m (\<lambda>_. returnE ()) = (m :: unit io)"
  by (rule ext) (simp add: bindE_def returnE_def split: prod.splits sum.splits)

lemma processMessages_append:
  "processMessages E (xs @ ys) = bindE (processMessages E xs) (\<lambda>_. processMessages E ys)"
  by (induction xs) (simp_all add: bindE_returnE bindE_assoc)

lemma processChanges_flat:
  "processChanges E cs =
     processMessages E (concat (map (\<lambda>c. case messages c of None \<Rightarrow> [] | Some ms \<Rightarrow> ms) cs))"
  by (induction cs) (simp_all add: processMessages_append)

lemma processEntries_flat:
  "processEntries E es =
     processMessages E
       (concat (map (\<lambda>e. concat (map (\<lambda>c. case messages c of None \<Rightarrow> [] | Some ms \<Rightarrow> ms)
                                       (case changes e of None \<Rightarrow> [] | Some cs \<Rightarrow> cs))) es))"
  by (induction es) (simp_all add: processMessages_append processChanges_flat)

lemma processWebhookPayload_flat:
  "processWebhookPayload E p = processMessages E (allMessages p)"
  by (simp add: processWebhookPayload_def allMessages_def processEntries_flat
        split: option.splits payload.splits)

lemma strictEq_iff: "strictEq a b \<longleftrightarrow> a = map_option QString b"
  by (cases "(a, b)" rule: strictEq.cases) (auto split: option.splits simp: map_option_case)

section \<open>Rate limiting\<close>

text \<open>C1 (as amended). When the opt-out check answers false, the message carries a media id, the
  ledger holds \<open>L\<close> for the sender and the clock reads less than \<open>L + RATE_LIMIT_WINDOW_MS\<close>, the
  handler makes exactly one outbound call, the wait notice, and leaves the ledger and the timers
  as they were; when that send and the two log operations succeed, it returns normally and appends
  one \<open>rate_limited\<close> usage event. Here \<open>s0\<close> is the world after the opt-out check; the clock
  is read at \<open>tick s0\<close>, the send follows, and \<open>logUsage\<close> makes the next three interactions
  (directory, time stamp, append).\<close>

theorem rate_limited_rejection:
  assumes "has E sender s = (Inr False, s0)"
    and "audio_id msg = Some mediaId" and "mediaId \<noteq> []"
    and "recentRequests s sender = Some L"
    and "dateNow E (tick s0) - L < RATE_LIMIT_WINDOW_MS E"
  shows "calls (snd (handleAudioMessage E sender msg s)) = calls s @ [SendText sender WaitNotice]
     \<and> recentRequests (snd (handleAudioMessage E sender msg s)) = recentRequests s
     \<and> timers (snd (handleAudioMessage E sender msg s)) = timers s
     \<and> (axiosPostMessage E (tick s0 + 1) sender WaitNotice = None
          \<and> fsFault E (tick s0 + 2) (EnsureDir DATA_DIR) = None
          \<and> fsFault E (tick s0 + 4) (AppendFile USAGE_LOG_PATH) = None
        \<longrightarrow> fst (handleAudioMessage E sender msg s) = Inr ()
          \<and> usageLog (snd (handleAudioMessage E sender msg s))
              = usageLog s @ [(dateNow E (tick s0 + 3), RateLimited sender mediaId)])"
proof -
  have h: "calls s0 = calls s" "recentRequests s0 = recentRequests s" "timers s0 = timers s"
      "usageLog s0 = usageLog s"
    using has_result [OF assms(1)] by simp_all
  have run: "handleAudioMessage E sender msg s =
      bindE (sendWhatsAppText E sender WaitNotice) (\<lambda>_. logUsage E (RateLimited sender mediaId))
        (advance s0)"
    using handleAudio_after_has [OF assms(1,2,3)] assms(4,5) h(2) by simp
  show ?thesis
    unfolding run
    using wait_notice_run [of E sender mediaId "advance s0"] h
    by (simp add: advance_def eval_nat_numeral)
qed

text \<open>C1, witness: a sender whose ledger entry is 5 seconds old.\<close>

theorem rate_limited_rejection_witness:
  "calls (snd (handleAudioMessage calmEnv ''5215550001'' (audioFrom ''5215550001'' ''media-2'') throttledWorld))
     = [SendText ''5215550001'' WaitNotice]
   \<and> recentRequests (snd (handleAudioMessage calmEnv ''5215550001'' (audioFrom ''5215550001'' ''media-2'') throttledWorld))
     = [''5215550001'' \<mapsto> 95000]
   \<and> timers (snd (handleAudioMessage calmEnv ''5215550001'' (audioFrom ''5215550001'' ''media-2'') throttledWorld)) = []
   \<and> usageLog (snd (handleAudioMessage calmEnv ''5215550001'' (audioFrom ''5215550001'' ''media-2'') throttledWorld))
     = [(103600, RateLimited ''5215550001'' ''media-2'')]"
proof -
  have h1: "has calmEnv ''5215550001'' throttledWorld = (Inr False, throttledWorld)"
    by (simp add: has_initialized throttledWorld_def freshWorld_def)
  have h2: "audio_id (audioFrom ''5215550001'' ''media-2'') = Some ''media-2''"
    by (simp add: audioFrom_def)
  have h3: "''media-2'' \<noteq> []" by simp
  have h4: "recentRequests throttledWorld ''5215550001'' = Some 95000"
    by (simp add: throttledWorld_def)
  have h5: "dateNow calmEnv (tick throttledWorld) - 95000 < RATE_LIMIT_WINDOW_MS calmEnv"
    by (simp add: throttledWorld_def freshWorld_def calmEnv_def RATE_LIMIT_WINDOW_MS_def)
  show ?thesis
    using rate_limited_rejection [OF h1 h2 h3 h4 h5]
    by (simp add: throttledWorld_def freshWorld_def calmEnv_def)
qed

text \<open>C1, counterexample to the claim as stated: the sender has a ledger entry 5 seconds old but is
  opted out; no wait notice is sent and no usage event is recorded.\<close>

theorem rate_limit_skipped_for_opted_out:
  "recentRequests optedOutWorld ''5215550001'' = Some 95000
   \<and> dateNow calmEnv (tick optedOutWorld) - 95000 < RATE_LIMIT_WINDOW_MS calmEnv
   \<and> calls (snd (handleAudioMessage calmEnv ''5215550001'' (audioFrom ''5215550001'' ''media-2'') optedOutWorld)) = []
   \<and> usageLog (snd (handleAudioMessage calmEnv ''5215550001'' (audioFrom ''5215550001'' ''media-2'') optedOutWorld)) = []"
  by (simp add: handleAudioMessage_def has_def init_def bindE_def returnE_def optedOutWorld_def
      freshWorld_def calmEnv_def RATE_LIMIT_WINDOW_MS_def)

text \<open>C2 (as amended). For a sender who is not opted out, an admitted audio event leaves the ledger at
  the clock reading taken when its pipeline completed, and the next audio event of that sender is
  rejected exactly when it arrives less than \<open>RATE_LIMIT_WINDOW_MS\<close> after that reading.\<close>

theorem admission_after_completion:
  assumes "has E sender s = (Inr False, s0)"
    and "audio_id m1 = Some i1" and "i1 \<noteq> []" and "audio_id m2 = Some i2" and "i2 \<noteq> []"
    and "\<not> dateNow E (tick s0) - (case recentRequests s sender of None \<Rightarrow> 0 | Some t \<Rightarrow> t)
             < RATE_LIMIT_WINDOW_MS E"
  shows "\<not> rejected E sender m1 s
     \<and> recentRequests (snd (handleAudioMessage E sender m1 s)) sender
         = Some (dateNow E (tick (snd (handleAudioMessage E sender m1 s)) - 1))
     \<and> (rejected E sender m2 (snd (handleAudioMessage E sender m1 s)) \<longleftrightarrow>
          dateNow E (tick (snd (handleAudioMessage E sender m1 s)))
            - dateNow E (tick (snd (handleAudioMessage E sender m1 s)) - 1)
          < RATE_LIMIT_WINDOW_MS E)"
proof -
  let ?s3 = "(advance s0)\<lparr>recentRequests := (recentRequests s0)(sender \<mapsto> dateNow E (tick s0))\<rparr>"
  let ?s1 = "snd (handleAudioMessage E sender m1 s)"
  have h: "recentRequests s0 = recentRequests s" "initialized (optOutStore s0)"
      "sender \<notin> set (items (optOutStore s0))"
    using has_result [OF assms(1)] has_Inr [OF assms(1)] by simp_all
  have run: "handleAudioMessage E sender m1 s = audioPipeline E sender i1 ?s3"
    using assms(6) handleAudio_after_has [OF assms(1,2,3)] h(1) by simp
  note pp = audioPipeline_props [of E sender i1 ?s3]
  have st: "optOutStore ?s1 = optOutStore s0"
    unfolding run using pp by (simp add: advance_def)
  have led: "recentRequests ?s1 sender = Some (dateNow E (tick ?s1 - 1))"
    unfolding run using pp by simp
  have h2: "has E sender ?s1 = (Inr False, ?s1)"
    using h st by (simp add: has_initialized)
  have a: "\<not> rejected E sender m1 s"
    using rejected_iff [OF assms(1,2,3)] assms(6) by simp
  have b: "rejected E sender m2 ?s1 \<longleftrightarrow>
      dateNow E (tick ?s1) - dateNow E (tick ?s1 - 1) < RATE_LIMIT_WINDOW_MS E"
    using rejected_iff [OF h2 assms(4,5)] led by simp
  show ?thesis using a led b by blast
qed

text \<open>C2, witness: the second event arrives 1.2 seconds after the first has completed.\<close>

theorem admission_after_completion_witness:
  "\<not> rejected calmEnv ''5215550001'' (audioFrom ''5215550001'' ''media-1'') freshWorld
   \<and> recentRequests (snd (handleAudioMessage calmEnv ''5215550001'' (audioFrom ''5215550001'' ''media-1'') freshWorld)) ''5215550001''
       = Some 120400
   \<and> rejected calmEnv ''5215550001'' (audioFrom ''5215550001'' ''media-2'')
       (snd (handleAudioMessage calmEnv ''5215550001'' (audioFrom ''5215550001'' ''media-1'') freshWorld))"
proof -
  have h0: "has calmEnv ''5215550001'' freshWorld = (Inr False, freshWorld)"
    by (simp add: has_initialized freshWorld_def)
  have a: "audio_id (audioFrom ''5215550001'' ''media-1'') = Some ''media-1''"
      "audio_id (audioFrom ''5215550001'' ''media-2'') = Some ''media-2''"
    by (simp_all add: audioFrom_def)
  have n: "''media-1'' \<noteq> []" "''media-2'' \<noteq> []" by simp_all
  have adm: "\<not> dateNow calmEnv (tick freshWorld)
        - (case recentRequests freshWorld ''5215550001'' of None \<Rightarrow> 0 | Some t \<Rightarrow> t)
        < RATE_LIMIT_WINDOW_MS calmEnv"
    by (simp add: freshWorld_def calmEnv_def RATE_LIMIT_WINDOW_MS_def)
  show ?thesis
    using admission_after_completion [OF h0 a(1) n(1) a(2) n(2) adm]
    by (simp add: calm_first_event) (simp add: calmEnv_def RATE_LIMIT_WINDOW_MS_def)
qed

text \<open>C2, counterexample to the claim as stated: the two events arrive 21.6 seconds apart, more
  than the window of 15 seconds, but the first pipeline took 20.4 seconds and the second event is
  rejected.\<close>

theorem late_second_event_rejected:
  "dateNow calmEnv (tick freshWorld) = 100000
   \<and> dateNow calmEnv (tick (snd (handleAudioMessage calmEnv ''5215550001'' (audioFrom ''5215550001'' ''media-1'') freshWorld))) = 121600
   \<and> RATE_LIMIT_WINDOW_MS calmEnv = 15000
   \<and> \<not> rejected calmEnv ''5215550001'' (audioFrom ''5215550001'' ''media-1'') freshWorld
   \<and> rejected calmEnv ''5215550001'' (audioFrom ''5215550001'' ''media-2'')
       (snd (handleAudioMessage calmEnv ''5215550001'' (audioFrom ''5215550001'' ''media-1'') freshWorld))"
proof -
  let ?s1 = "snd (handleAudioMessage calmEnv ''5215550001'' (audioFrom ''5215550001'' ''media-1'') freshWorld)"
  have h0: "has calmEnv ''5215550001'' freshWorld = (Inr False, freshWorld)"
    by (simp add: has_initialized freshWorld_def)
  have st: "optOutStore ?s1 = optOutStore freshWorld"
    by (rule calm_first_event(1))
  have i: "initialized (optOutStore ?s1)"
    unfolding st by (simp add: freshWorld_def)
  have h1: "has calmEnv ''5215550001'' ?s1 = (Inr False, ?s1)"
    unfolding has_initialized [OF i] st by (simp add: freshWorld_def)
  have a: "audio_id (audioFrom ''5215550001'' ''media-1'') = Some ''media-1''"
      "audio_id (audioFrom ''5215550001'' ''media-2'') = Some ''media-2''"
    by (simp_all add: audioFrom_def)
  have w: "RATE_LIMIT_WINDOW_MS calmEnv = 15000"
    by (simp add: RATE_LIMIT_WINDOW_MS_def calmEnv_def)
  have c: "dateNow calmEnv 0 = 100000" "dateNow calmEnv 18 = 121600"
    by (simp_all add: calmEnv_def)
  have r1: "\<not> rejected calmEnv ''5215550001'' (audioFrom ''5215550001'' ''media-1'') freshWorld"
    using rejected_iff [OF h0 a(1)] w c by (simp add: freshWorld_def)
  have r2: "rejected calmEnv ''5215550001'' (audioFrom ''5215550001'' ''media-2'') ?s1"
    using rejected_iff [OF h1 a(2)] w c by (simp add: calm_first_event)
  show ?thesis
    using r1 r2 w c by (simp add: calm_first_event) (simp add: freshWorld_def)
qed

section \<open>Opt-out\<close>

text \<open>C3. An audio event of a sender in the opt-out set makes no outbound call, records no usage
  event and leaves the ledger and the timers alone; with the store loaded the handler returns
  normally and the world is unchanged.\<close>

theorem opted_out_audio_dropped:
  assumes "sender \<in> set (items (optOutStore s))"
  shows "calls (snd (handleAudioMessage E sender msg s)) = calls s
     \<and> usageLog (snd (handleAudioMessage E sender msg s)) = usageLog s
     \<and> recentRequests (snd (handleAudioMessage E sender msg s)) = recentRequests s
     \<and> timers (snd (handleAudioMessage E sender msg s)) = timers s
     \<and> (initialized (optOutStore s) \<longrightarrow> handleAudioMessage E sender msg s = (Inr (), s))"
proof -
  obtain r s0 where h: "has E sender s = (r, s0)" by (cases "has E sender s")
  note hr = has_result [OF h]
  have 1: "handleAudioMessage E sender msg s = (case r of Inl e \<Rightarrow> Inl e | Inr b \<Rightarrow> Inr (), s0)"
  proof (cases r)
    case (Inl e)
    then show ?thesis using h by (simp add: handleAudioMessage_def bindE_def)
  next
    case (Inr b)
    then have "b" using has_Inr [of E sender s b s0] h hr assms by auto
    then show ?thesis using h Inr by (simp add: handleAudioMessage_def bindE_def returnE_def)
  qed
  have 2: "initialized (optOutStore s) \<Longrightarrow> r = Inr True \<and> s0 = s"
    using h assms by (simp add: has_initialized)
  show ?thesis
    using 1 2 hr by auto
qed

text \<open>C3, witness.\<close>

theorem opted_out_audio_dropped_witness:
  "handleAudioMessage calmEnv ''5215550001'' (audioFrom ''5215550001'' ''media-3'') optedOutWorld
     = (Inr (), optedOutWorld)
   \<and> calls (snd (handleAudioMessage calmEnv ''5215550001'' (audioFrom ''5215550001'' ''media-3'') optedOutWorld)) = []"
proof -
  have m: "''5215550001'' \<in> set (items (optOutStore optedOutWorld))"
    by (simp add: optedOutWorld_def)
  show ?thesis
    using opted_out_audio_dropped [OF m, of calmEnv "audioFrom ''5215550001'' ''media-3''"]
    by (simp add: optedOutWorld_def freshWorld_def)
qed

text \<open>C5. When no file-system operation fails: after \<open>add\<close> the identifier is in the set, after
  a following \<open>remove\<close> it is not, a second \<open>add\<close> or \<open>remove\<close> changes neither the set nor the
  file, and the file holds the set.\<close>

theorem optOut_roundtrip:
  assumes "\<forall>n opn. fsFault E n opn = None"
  shows "fst (add E i s) = Inr ()
     \<and> fst (has E i (snd (add E i s))) = Inr True
     \<and> fst (remove E i (snd (add E i s))) = Inr ()
     \<and> fst (has E i (snd (remove E i (snd (add E i s))))) = Inr False
     \<and> items (optOutStore (snd (add E i (snd (add E i s))))) = items (optOutStore (snd (add E i s)))
     \<and> jsonFiles (snd (add E i (snd (add E i s)))) = jsonFiles (snd (add E i s))
     \<and> items (optOutStore (snd (remove E i (snd (remove E i s))))) = items (optOutStore (snd (remove E i s)))
     \<and> jsonFiles (snd (remove E i (snd (remove E i s)))) = jsonFiles (snd (remove E i s))
     \<and> jsonFiles (snd (add E i s)) (filePath (optOutStore s)) = Some (JArray (items (optOutStore (snd (add E i s)))))
     \<and> jsonFiles (snd (remove E i s)) (filePath (optOutStore s)) = Some (JArray (items (optOutStore (snd (remove E i s)))))"
proof -
  obtain s1 where s1: "add E i s = (Inr (), s1)" "initialized (optOutStore s1)"
      "filePath (optOutStore s1) = filePath (optOutStore s)" "i \<in> set (items (optOutStore s1))"
      "jsonFiles s1 (filePath (optOutStore s)) = Some (JArray (items (optOutStore s1)))"
    using add_no_fault [OF assms, of i s] by blast
  obtain s2 where s2: "remove E i s1 = (Inr (), s2)" "initialized (optOutStore s2)"
      "i \<notin> set (items (optOutStore s2))"
    using remove_no_fault [OF assms, of i s1] by blast
  obtain s11 where s11: "add E i s1 = (Inr (), s11)"
      "items (optOutStore s11) = setAdd i (items (optOutStore s1))"
      "jsonFiles s11 = (jsonFiles s1)(filePath (optOutStore s1) \<mapsto> JArray (setAdd i (items (optOutStore s1))))"
    using add_no_fault [OF assms, of i s1] s1(2) by blast
  obtain r1 where r1: "remove E i s = (Inr (), r1)" "initialized (optOutStore r1)"
      "filePath (optOutStore r1) = filePath (optOutStore s)" "i \<notin> set (items (optOutStore r1))"
      "jsonFiles r1 (filePath (optOutStore s)) = Some (JArray (items (optOutStore r1)))"
    using remove_no_fault [OF assms, of i s] by blast
  obtain r11 where r11: "remove E i r1 = (Inr (), r11)"
      "items (optOutStore r11) = setDelete i (items (optOutStore r1))"
      "jsonFiles r11 = (jsonFiles r1)(filePath (optOutStore r1) \<mapsto> JArray (setDelete i (items (optOutStore r1))))"
    using remove_no_fault [OF assms, of i r1] r1(2) by blast
  have a: "jsonFiles s11 = jsonFiles s1"
    using s11(3) s1 by (simp add: setAdd_member map_upd_triv)
  have b: "jsonFiles r11 = jsonFiles r1"
    using r11(3) r1 by (simp add: setDelete_absent map_upd_triv)
  show ?thesis
    using s1 s2 s11 r1 r11 a b
    by (simp add: has_initialized setAdd_member setDelete_absent)
qed

text \<open>C5, witness: the store is loaded from a file that holds one other identifier.\<close>

theorem optOut_roundtrip_witness:
  "items (optOutStore (snd (add calmEnv ''5215550002'' stopStartWorld))) = [''5215550001'', ''5215550002'']
   \<and> fst (has calmEnv ''5215550002'' (snd (add calmEnv ''5215550002'' stopStartWorld))) = Inr True
   \<and> fst (has calmEnv ''5215550002'' (snd (remove calmEnv ''5215550002'' (snd (add calmEnv ''5215550002'' stopStartWorld))))) = Inr False
   \<and> jsonFiles (snd (add calmEnv ''5215550002'' (snd (add calmEnv ''5215550002'' stopStartWorld)))) OPT_OUT_PATH = Some (JArray [''5215550001'', ''5215550002''])"
proof -
  have nf: "\<forall>n opn. fsFault calmEnv n opn = None"
    by (simp add: calmEnv_def)
  have v: "snd (add calmEnv ''5215550002'' stopStartWorld) =
      stopStartWorld\<lparr>optOutStore := \<lparr>filePath = OPT_OUT_PATH, items = [''5215550001'', ''5215550002''], initialized = True\<rparr>,
        jsonFiles := [OPT_OUT_PATH \<mapsto> JArray [''5215550001'', ''5215550002'']], tick := 3\<rparr>"
    by (simp add: add_def bindE_def init_def save_def fsCall_def advance_def calmEnv_def
        stopStartWorld_def freshWorld_def OPT_OUT_PATH_def dirname_def setAdd_def)
  show ?thesis
    using optOut_roundtrip [OF nf, of "''5215550002''" stopStartWorld]
    by (simp add: v)
qed

section \<open>Summarization\<close>

text \<open>C4. For a file that can be read: up to \<open>MAX_INLINE_BYTES\<close> the only call is one
  \<open>generateContent\<close> request with the content inline, and no upload call is made; above it the
  first call initiates the resumable upload, no inline request follows, and when the two upload
  calls answer with an upload URL and a file URI the calls are initiate, upload and finalize,
  and a \<open>generateContent\<close> request that refers to the file. The interactions from \<open>tick s\<close>
  on are: stat, read, the clock read for the display name, initiate, upload and finalize.\<close>

theorem inline_threshold:
  assumes "audioFiles s path = Some buf"
    and "fsFault E (tick s) (Stat path) = None"
    and "fsFault E (tick s + 1) (ReadFile path) = None"
  shows "(byteLength buf \<le> MAX_INLINE_BYTES \<longrightarrow>
            newCalls s (snd (summarizeWithGemini E path mime s))
              = [GenerateContent [TextPart SUMMARY_PROMPT, InlineData mime (Base64 buf)]]
            \<and> \<not> list_ex isUpload (newCalls s (snd (summarizeWithGemini E path mime s))))
     \<and> (byteLength buf > MAX_INLINE_BYTES \<longrightarrow>
            (\<exists>rest. newCalls s (snd (summarizeWithGemini E path mime s))
                      = UploadStart (byteLength buf) mime # rest
                    \<and> \<not> list_ex isInline rest)
          \<and> (\<forall>u f. axiosPostUploadStart E (tick s + 3) (byteLength buf) mime = Inr (Some u) \<and> u \<noteq> []
                    \<and> axiosPostUpload E (tick s + 4) u buf = Inr (Some f) \<and> f \<noteq> []
                 \<longrightarrow> newCalls s (snd (summarizeWithGemini E path mime s))
                       = [UploadStart (byteLength buf) mime, UploadFinalize u buf mime,
                          GenerateContent [TextPart SUMMARY_PROMPT, FileData mime f]]))"
  using assms
  by (auto simp: summarizeWithGemini_def fsStat_def fsReadFile_def fsCall_def bindE_def
        generateContent_def startResumableUpload_def outbound_def Date_now_def advance_def
        newCalls_def throwE_def returnE_def eval_nat_numeral
        split: sum.splits option.splits)

text \<open>C4, witness: a file of exactly 20 MB and a file of 20 MB and one byte.\<close>

theorem inline_threshold_witness:
  "newCalls (clipWorld 20971520)
      (snd (summarizeWithGemini calmEnv ''/tmp/wa-audio-Ab12Cd/input.mp3'' ''audio/mpeg'' (clipWorld 20971520)))
     = [GenerateContent [TextPart SUMMARY_PROMPT, InlineData ''audio/mpeg'' (Base64 (Buffer 20971520 ''clip''))]]
   \<and> newCalls (clipWorld 20971521)
      (snd (summarizeWithGemini calmEnv ''/tmp/wa-audio-Ab12Cd/input.mp3'' ''audio/mpeg'' (clipWorld 20971521)))
     = [UploadStart 20971521 ''audio/mpeg'',
        UploadFinalize ''https://upload/1'' (Buffer 20971521 ''clip'') ''audio/mpeg'',
        GenerateContent [TextPart SUMMARY_PROMPT, FileData ''audio/mpeg'' ''files/1'']]"
proof -
  have f: "\<And>n. audioFiles (clipWorld n) ''/tmp/wa-audio-Ab12Cd/input.mp3'' = Some (Buffer n ''clip'')"
    by (simp add: clipWorld_def)
  have g: "\<And>n opn. fsFault calmEnv n opn = None"
    by (simp add: calmEnv_def)
  show ?thesis
    using inline_threshold [of "clipWorld 20971520" "''/tmp/wa-audio-Ab12Cd/input.mp3''"
        "Buffer 20971520 ''clip''" calmEnv "''audio/mpeg''", OF f g g]
      inline_threshold [of "clipWorld 20971521" "''/tmp/wa-audio-Ab12Cd/input.mp3''"
        "Buffer 20971521 ''clip''" calmEnv "''audio/mpeg''", OF f g g]
    by (simp add: MAX_INLINE_BYTES_def calmEnv_def)
qed

text \<open>C8 (as amended). For an admitted audio event whose preparation succeeds and whose
  summarization returns no text (\<open>s5\<close> is the world after the summarization call), the call
  after the summarization is always the "could not understand" reply. When that send and the
  log operations succeed, the handler returns normally, makes no further call and appends one
  \<open>summary_sent\<close> event with \<open>success\<close> false. When that send fails with \<open>e\<close>, the \<open>catch\<close>
  block runs: the apology is the only further call and, when the log operations succeed, the
  one usage event appended is \<open>summary_failed\<close> with the text of \<open>e\<close>.\<close>

theorem no_text_fallback:
  assumes "has E sender s = (Inr False, s0)"
    and "audio_id msg = Some mediaId" and "mediaId \<noteq> []"
    and "\<not> dateNow E (tick s0) - (case recentRequests s sender of None \<Rightarrow> 0 | Some t \<Rightarrow> t)
             < RATE_LIMIT_WINDOW_MS E"
    and "audioPrepare E sender mediaId
           ((advance s0)\<lparr>recentRequests := (recentRequests s0)(sender \<mapsto> dateNow E (tick s0))\<rparr>)
         = ((Inr (mp3Path, mimeType), tempDir), s4)"
    and "summarizeWithGemini E mp3Path mimeType s4 = (Inr None, s5)"
  shows "(\<exists>rest. calls (snd (handleAudioMessage E sender msg s))
                   = calls s5 @ SendText sender NotUnderstood # rest)
     \<and> (axiosPostMessage E (tick s5) sender NotUnderstood = None
          \<and> fsFault E (tick s5 + 1) (EnsureDir DATA_DIR) = None
          \<and> fsFault E (tick s5 + 3) (AppendFile USAGE_LOG_PATH) = None
        \<longrightarrow> fst (handleAudioMessage E sender msg s) = Inr ()
          \<and> calls (snd (handleAudioMessage E sender msg s)) = calls s5 @ [SendText sender NotUnderstood]
          \<and> usageLog (snd (handleAudioMessage E sender msg s))
              = usageLog s5 @ [(dateNow E (tick s5 + 2), SummarySent sender mediaId False)])
     \<and> (\<forall>e. axiosPostMessage E (tick s5) sender NotUnderstood = Some e
        \<longrightarrow> calls (snd (handleAudioMessage E sender msg s))
              = calls s5 @ [SendText sender NotUnderstood, SendText sender Apology]
          \<and> (fsFault E (tick s5 + 2) (EnsureDir DATA_DIR) = None
               \<and> fsFault E (tick s5 + 4) (AppendFile USAGE_LOG_PATH) = None
             \<longrightarrow> fst (handleAudioMessage E sender msg s) = Inr ()
               \<and> usageLog (snd (handleAudioMessage E sender msg s))
                   = usageLog s5 @ [(dateNow E (tick s5 + 3),
                                     SummaryFailed sender mediaId (extractError e))]))"
proof -
  let ?s3 = "(advance s0)\<lparr>recentRequests := (recentRequests s0)(sender \<mapsto> dateNow E (tick s0))\<rparr>"
  let ?H = "handleAudioMessage E sender msg s"
  have h: "recentRequests s0 = recentRequests s"
    using has_result [OF assms(1)] by simp
  have run: "?H = audioPipeline E sender mediaId ?s3"
    using assms(4) handleAudio_after_has [OF assms(1,2,3)] h by simp
  obtain r6 s6 where s6: "audioDeliver E sender mediaId mp3Path mimeType s4 = (r6, s6)"
    by (cases "audioDeliver E sender mediaId mp3Path mimeType s4")
  have c6: "calls s6 = calls s5 @ [SendText sender NotUnderstood]"
    using deliver_no_text_calls [OF assms(6), of sender mediaId] s6 by simp
  have A: "\<exists>rest. calls (snd ?H) = calls s5 @ SendText sender NotUnderstood # rest"
  proof (cases r6)
    case (Inl err)
    have "snd ?H = audioFinally E sender tempDir (snd (audioCatch E sender mediaId err s6))"
      unfolding run using assms(5) s6 Inl by (simp add: audioPipeline_def split: prod.splits)
    then show ?thesis
      using audioFinally_props [of E sender tempDir "snd (audioCatch E sender mediaId err s6)"]
        catch_run [of E sender mediaId err s6] c6 by simp
  next
    case (Inr u)
    have "snd ?H = audioFinally E sender tempDir s6"
      unfolding run using assms(5) s6 Inr by (simp add: audioPipeline_def)
    then show ?thesis
      using audioFinally_props [of E sender tempDir s6] c6 by simp
  qed
  have B: "axiosPostMessage E (tick s5) sender NotUnderstood = None
          \<and> fsFault E (tick s5 + 1) (EnsureDir DATA_DIR) = None
          \<and> fsFault E (tick s5 + 3) (AppendFile USAGE_LOG_PATH) = None
        \<longrightarrow> fst ?H = Inr ()
          \<and> calls (snd ?H) = calls s5 @ [SendText sender NotUnderstood]
          \<and> usageLog (snd ?H)
              = usageLog s5 @ [(dateNow E (tick s5 + 2), SummarySent sender mediaId False)]"
  proof
    assume ok: "axiosPostMessage E (tick s5) sender NotUnderstood = None
          \<and> fsFault E (tick s5 + 1) (EnsureDir DATA_DIR) = None
          \<and> fsFault E (tick s5 + 3) (AppendFile USAGE_LOG_PATH) = None"
    note d = deliver_no_text [OF assms(6) ok [THEN conjunct1] ok [THEN conjunct2, THEN conjunct1]
        ok [THEN conjunct2, THEN conjunct2], of mediaId]
    have r: "r6 = Inr ()" using d s6 by simp
    have pipe: "audioPipeline E sender mediaId ?s3 = (Inr (), audioFinally E sender tempDir s6)"
      using assms(5) s6 r by (simp add: audioPipeline_def)
    show "fst ?H = Inr ()
          \<and> calls (snd ?H) = calls s5 @ [SendText sender NotUnderstood]
          \<and> usageLog (snd ?H)
              = usageLog s5 @ [(dateNow E (tick s5 + 2), SummarySent sender mediaId False)]"
      unfolding run pipe
      using d s6 audioFinally_props [of E sender tempDir s6] by simp
  qed
  have C: "\<forall>e. axiosPostMessage E (tick s5) sender NotUnderstood = Some e
        \<longrightarrow> calls (snd ?H) = calls s5 @ [SendText sender NotUnderstood, SendText sender Apology]
          \<and> (fsFault E (tick s5 + 2) (EnsureDir DATA_DIR) = None
               \<and> fsFault E (tick s5 + 4) (AppendFile USAGE_LOG_PATH) = None
             \<longrightarrow> fst ?H = Inr ()
               \<and> usageLog (snd ?H)
                   = usageLog s5 @ [(dateNow E (tick s5 + 3),
                                     SummaryFailed sender mediaId (extractError e))])"
  proof (intro allI impI)
    fix e
    assume f: "axiosPostMessage E (tick s5) sender NotUnderstood = Some e"
    let ?t = "advance (s5\<lparr>calls := calls s5 @ [SendText sender NotUnderstood]\<rparr>)"
    have d: "audioDeliver E sender mediaId mp3Path mimeType s4 = (Inl e, ?t)"
      using deliver_no_text_throws [OF assms(6) f] .
    have pipe: "audioPipeline E sender mediaId ?s3
        = (fst (audioCatch E sender mediaId e ?t),
           audioFinally E sender tempDir (snd (audioCatch E sender mediaId e ?t)))"
      using assms(5) d by (simp add: audioPipeline_def split: prod.splits)
    show "calls (snd ?H) = calls s5 @ [SendText sender NotUnderstood, SendText sender Apology]
          \<and> (fsFault E (tick s5 + 2) (EnsureDir DATA_DIR) = None
               \<and> fsFault E (tick s5 + 4) (AppendFile USAGE_LOG_PATH) = None
             \<longrightarrow> fst ?H = Inr ()
               \<and> usageLog (snd ?H)
                   = usageLog s5 @ [(dateNow E (tick s5 + 3),
                                     SummaryFailed sender mediaId (extractError e))])"
      unfolding run pipe
      using catch_run [of E sender mediaId e ?t]
        audioFinally_props [of E sender tempDir "snd (audioCatch E sender mediaId e ?t)"]
      by (simp add: advance_def eval_nat_numeral)
  qed
  show ?thesis using A B C by (rule conjI [OF _ conjI])
qed

text \<open>C8, witness: the response has one candidate whose only text is blank; once every send
  succeeds, once the send of the "could not understand" reply fails.\<close>

theorem no_text_fallback_witness:
  "fst (handleAudioMessage muteEnv ''5215550001'' (audioFrom ''5215550001'' ''media-4'') freshWorld) = Inr ()
   \<and> calls (snd (handleAudioMessage muteEnv ''5215550001'' (audioFrom ''5215550001'' ''media-4'') freshWorld))
     = [FetchMetadata ''media-4'', DownloadMedia ''https://cdn/voice'',
        Transcode ''/tmp/wa-audio-Ab12Cd/input.ogg'' ''/tmp/wa-audio-Ab12Cd/input.ogg.mp3'',
        GenerateContent [TextPart SUMMARY_PROMPT, InlineData ''audio/mpeg'' (Base64 (Buffer 2048 ''voice-mp3''))],
        SendText ''5215550001'' NotUnderstood]
   \<and> map snd (usageLog (snd (handleAudioMessage muteEnv ''5215550001'' (audioFrom ''5215550001'' ''media-4'') freshWorld)))
     = [AudioReceived ''5215550001'' ''media-4'', SummarySent ''5215550001'' ''media-4'' False]
   \<and> calls (snd (handleAudioMessage deafEnv ''5215550001'' (audioFrom ''5215550001'' ''media-4'') freshWorld))
     = [FetchMetadata ''media-4'', DownloadMedia ''https://cdn/voice'',
        Transcode ''/tmp/wa-audio-Ab12Cd/input.ogg'' ''/tmp/wa-audio-Ab12Cd/input.ogg.mp3'',
        GenerateContent [TextPart SUMMARY_PROMPT, InlineData ''audio/mpeg'' (Base64 (Buffer 2048 ''voice-mp3''))],
        SendText ''5215550001'' NotUnderstood, SendText ''5215550001'' Apology]
   \<and> map snd (usageLog (snd (handleAudioMessage deafEnv ''5215550001'' (audioFrom ''5215550001'' ''media-4'') freshWorld)))
     = [AudioReceived ''5215550001'' ''media-4'',
        SummaryFailed ''5215550001'' ''media-4'' (ResponseDetail 500 ''Internal Server Error'' ''{}'')]"
proof -
  let ?s3 = "(advance freshWorld)\<lparr>recentRequests := (recentRequests freshWorld)(''5215550001'' \<mapsto> dateNow muteEnv (tick freshWorld))\<rparr>"
  let ?s4 = "snd (audioPrepare muteEnv ''5215550001'' ''media-4'' ?s3)"
  let ?s5 = "snd (summarizeWithGemini muteEnv ''/tmp/wa-audio-Ab12Cd/input.ogg.mp3'' ''audio/mpeg'' ?s4)"
  let ?t3 = "(advance freshWorld)\<lparr>recentRequests := (recentRequests freshWorld)(''5215550001'' \<mapsto> dateNow deafEnv (tick freshWorld))\<rparr>"
  let ?t4 = "snd (audioPrepare deafEnv ''5215550001'' ''media-4'' ?t3)"
  let ?t5 = "snd (summarizeWithGemini deafEnv ''/tmp/wa-audio-Ab12Cd/input.ogg.mp3'' ''audio/mpeg'' ?t4)"
  have h0: "has muteEnv ''5215550001'' freshWorld = (Inr False, freshWorld)"
      "has deafEnv ''5215550001'' freshWorld = (Inr False, freshWorld)"
    by (simp_all add: has_initialized freshWorld_def)
  have a: "audio_id (audioFrom ''5215550001'' ''media-4'') = Some ''media-4''"
    by (simp add: audioFrom_def)
  have n: "''media-4'' \<noteq> []" by simp
  have adm: "\<not> dateNow muteEnv (tick freshWorld)
        - (case recentRequests freshWorld ''5215550001'' of None \<Rightarrow> 0 | Some t \<Rightarrow> t)
        < RATE_LIMIT_WINDOW_MS muteEnv"
      "\<not> dateNow deafEnv (tick freshWorld)
        - (case recentRequests freshWorld ''5215550001'' of None \<Rightarrow> 0 | Some t \<Rightarrow> t)
        < RATE_LIMIT_WINDOW_MS deafEnv"
    by (simp_all add: freshWorld_def deafEnv_def muteEnv_def calmEnv_def RATE_LIMIT_WINDOW_MS_def)
  have p: "audioPrepare muteEnv ''5215550001'' ''media-4'' ?s3
      = ((Inr (''/tmp/wa-audio-Ab12Cd/input.ogg.mp3'', ''audio/mpeg''), Some ''/tmp/wa-audio-Ab12Cd''), ?s4)"
    using mute_prepare by (simp add: prod_eq_iff)
  have q: "summarizeWithGemini muteEnv ''/tmp/wa-audio-Ab12Cd/input.ogg.mp3'' ''audio/mpeg'' ?s4
      = (Inr None, ?s5)"
    using mute_summarize(1) by (simp add: prod_eq_iff)
  have p': "audioPrepare deafEnv ''5215550001'' ''media-4'' ?t3
      = ((Inr (''/tmp/wa-audio-Ab12Cd/input.ogg.mp3'', ''audio/mpeg''), Some ''/tmp/wa-audio-Ab12Cd''), ?t4)"
    using deaf_prepare by (simp add: prod_eq_iff)
  have q': "summarizeWithGemini deafEnv ''/tmp/wa-audio-Ab12Cd/input.ogg.mp3'' ''audio/mpeg'' ?t4
      = (Inr None, ?t5)"
    using deaf_summarize(1) by (simp add: prod_eq_iff)
  have ok: "\<And>k. axiosPostMessage muteEnv k ''5215550001'' NotUnderstood = None"
      "\<And>k opn. fsFault muteEnv k opn = None"
      "\<And>k. axiosPostMessage deafEnv k ''5215550001'' NotUnderstood
             = Some (ResponseError 500 ''Internal Server Error'' ''{}'')"
      "\<And>k opn. fsFault deafEnv k opn = None"
    by (simp_all add: deafEnv_def muteEnv_def calmEnv_def)
  show ?thesis
    using no_text_fallback [OF h0(1) a n adm(1) p q] no_text_fallback [OF h0(2) a n adm(2) p' q']
    by (simp add: mute_summarize deaf_summarize ok)
qed

text \<open>C8, counterexample to the claim as stated: the summarization returns no text and the send of
  the "could not understand" reply fails; the apology follows and the usage event recorded is
  \<open>summary_failed\<close>, not \<open>summary_sent\<close> with \<open>success\<close> false.\<close>

theorem failed_fallback_send_logs_failure:
  "fst (summarizeWithGemini deafEnv ''/tmp/wa-audio-Ab12Cd/input.ogg.mp3'' ''audio/mpeg''
     (snd (audioPrepare deafEnv ''5215550001'' ''media-4''
      ((advance freshWorld)\<lparr>recentRequests := (recentRequests freshWorld)(''5215550001'' \<mapsto> dateNow deafEnv (tick freshWorld))\<rparr>))))
    = Inr None
   \<and> calls (snd (handleAudioMessage deafEnv ''5215550001'' (audioFrom ''5215550001'' ''media-4'') freshWorld))
     = [FetchMetadata ''media-4'', DownloadMedia ''https://cdn/voice'',
        Transcode ''/tmp/wa-audio-Ab12Cd/input.ogg'' ''/tmp/wa-audio-Ab12Cd/input.ogg.mp3'',
        GenerateContent [TextPart SUMMARY_PROMPT, InlineData ''audio/mpeg'' (Base64 (Buffer 2048 ''voice-mp3''))],
        SendText ''5215550001'' NotUnderstood, SendText ''5215550001'' Apology]
   \<and> map snd (usageLog (snd (handleAudioMessage deafEnv ''5215550001'' (audioFrom ''5215550001'' ''media-4'') freshWorld)))
     = [AudioReceived ''5215550001'' ''media-4'',
        SummaryFailed ''5215550001'' ''media-4'' (ResponseDetail 500 ''Internal Server Error'' ''{}'')]"
  by (simp add: eval_defs deafEnv_def muteEnv_def calmEnv_def freshWorld_def audioFrom_def)

section \<open>Text commands and the dispatcher\<close>

text \<open>C6 (as amended). The messages of a payload are handled in order; when the handler of one
  message throws, the messages before it have been handled, the error ends the processing and no
  later message is handled, while the request has been acknowledged with 200.\<close>

theorem batch_stops_at_first_throw:
  assumes "allMessages p = pre @ m # post"
    and "processMessages E pre s = (Inr (), s1)"
    and "handleMessage E m s1 = (Inl e, s2)"
  shows "processWebhookPayload E p s = (Inl e, s2) \<and> postWebhook E p s = (SendStatus 200, s2)"
  using assms
  by (simp add: postWebhook_def processWebhookPayload_flat processMessages_append bindE_def)

text \<open>C6, witness: the send of the first reply fails.\<close>

theorem batch_stops_at_first_throw_witness:
  "processWebhookPayload failingSendEnv (Some twoTexts) freshWorld
     = (Inl (ResponseError 500 ''Internal Server Error'' ''{}''),
        freshWorld\<lparr>calls := [SendText ''5215550001'' HelpReply], tick := 1\<rparr>)"
proof -
  have a: "allMessages (Some twoTexts) = [] @ textFrom ''5215550001'' ''hello'' # [textFrom ''5215550002'' ''hello'']"
    by (simp add: allMessages_def twoTexts_def)
  have b: "processMessages failingSendEnv [] freshWorld = (Inr (), freshWorld)"
    by (simp add: returnE_def)
  have c: "handleMessage failingSendEnv (textFrom ''5215550001'' ''hello'') freshWorld
      = (Inl (ResponseError 500 ''Internal Server Error'' ''{}''),
         freshWorld\<lparr>calls := [SendText ''5215550001'' HelpReply], tick := 1\<rparr>)"
    by (simp add: handleMessage_def handleTextMessage_def textFrom_def eval_defs
        failingSendEnv_def calmEnv_def freshWorld_def)
  show ?thesis
    using batch_stops_at_first_throw [OF a b c] by simp
qed

text \<open>C6, counterexample to the claim as stated: the first of two text messages fails and the second
  gets no reply, although its handler would have sent one.\<close>

theorem second_message_lost:
  "fst (handleMessage failingSendEnv (textFrom ''5215550001'' ''hello'') freshWorld)
     = Inl (ResponseError 500 ''Internal Server Error'' ''{}'')
   \<and> allMessages (Some twoTexts) = [textFrom ''5215550001'' ''hello'', textFrom ''5215550002'' ''hello'']
   \<and> calls (snd (processWebhookPayload failingSendEnv (Some twoTexts) freshWorld))
       = [SendText ''5215550001'' HelpReply]
   \<and> calls (snd (handleMessage failingSendEnv (textFrom ''5215550002'' ''hello'')
                (snd (handleMessage failingSendEnv (textFrom ''5215550001'' ''hello'') freshWorld))))
       = [SendText ''5215550001'' HelpReply, SendText ''5215550002'' HelpReply]"
  by (simp add: processWebhookPayload_def twoTexts_def allMessages_def handleMessage_def
      handleTextMessage_def textFrom_def eval_defs failingSendEnv_def calmEnv_def freshWorld_def)

text \<open>C7 (as amended). The trimmed, lower-cased body selects the route: \<open>stop\<close> or \<open>/stop\<close> opts
  the sender out and sends the opt-out notice, \<open>start\<close> or \<open>/start\<close> opts the sender in and sends
  the welcome-back notice (each reply only when the store operation succeeds), \<open>human\<close> or
  \<open>/human\<close> sends the escalation notice, any other body that is not empty after trimming gets
  the help reply, and a body that is empty after trimming gets no reply at all.\<close>

theorem text_command_routing:
  "let trimmed = trim (case text_body msg of None \<Rightarrow> [] | Some b \<Rightarrow> b);
       cmd = toLowerCase trimmed;
       s' = snd (handleTextMessage E sender msg s)
   in (trimmed = [] \<longrightarrow> s' = s)
    \<and> (cmd = ''stop'' \<or> cmd = ''/stop'' \<longrightarrow>
         newCalls s s' = (if fst (add E sender s) = Inr () then [SendText sender OptedOutNotice] else [])
         \<and> (fst (add E sender s) = Inr () \<longrightarrow> sender \<in> set (items (optOutStore s'))))
    \<and> (cmd = ''start'' \<or> cmd = ''/start'' \<longrightarrow>
         newCalls s s' = (if fst (remove E sender s) = Inr () then [SendText sender BackInNotice] else [])
         \<and> (fst (remove E sender s) = Inr () \<longrightarrow> sender \<notin> set (items (optOutStore s'))))
    \<and> (cmd = ''human'' \<or> cmd = ''/human'' \<longrightarrow> newCalls s s' = [SendText sender HumanNotice])
    \<and> (trimmed \<noteq> [] \<and> cmd \<notin> {''stop'', ''/stop'', ''start'', ''/start'', ''human'', ''/human''} \<longrightarrow>
         newCalls s s' = [SendText sender HelpReply])"
proof -
  define trimmed where "trimmed = trim (case text_body msg of None \<Rightarrow> [] | Some b \<Rightarrow> b)"
  define cmd where "cmd = toLowerCase trimmed"
  have ne: "cmd \<noteq> [] \<Longrightarrow> trimmed \<noteq> []" by (simp add: cmd_def)
  have run: "handleTextMessage E sender msg =
      (if trimmed = [] then returnE ()
         else if cmd = ''stop'' \<or> cmd = ''/stop'' then
           bindE (add E sender) (\<lambda>_.
             bindE (sendWhatsAppText E sender OptedOutNotice) (\<lambda>_.
               logUsage E (OptOut sender)))
         else if cmd = ''start'' \<or> cmd = ''/start'' then
           bindE (remove E sender) (\<lambda>_.
             bindE (sendWhatsAppText E sender BackInNotice) (\<lambda>_.
               logUsage E (OptIn sender)))
         else if cmd = ''human'' \<or> cmd = ''/human'' then
           bindE (sendWhatsAppText E sender HumanNotice) (\<lambda>_.
             logUsage E (HumanRequested sender))
         else sendWhatsAppText E sender HelpReply)"
    by (simp add: handleTextMessage_def Let_def trimmed_def cmd_def)
  have c1: "trimmed = [] \<longrightarrow> snd (handleTextMessage E sender msg s) = s"
    by (simp add: run returnE_def)
  have c2: "cmd = ''stop'' \<or> cmd = ''/stop'' \<longrightarrow>
      newCalls s (snd (handleTextMessage E sender msg s))
         = (if fst (add E sender s) = Inr () then [SendText sender OptedOutNotice] else [])
      \<and> (fst (add E sender s) = Inr () \<longrightarrow>
           sender \<in> set (items (optOutStore (snd (handleTextMessage E sender msg s)))))"
  proof
    assume a: "cmd = ''stop'' \<or> cmd = ''/stop''"
    then have "cmd \<noteq> []" by auto
    then have "trimmed \<noteq> []" by (rule ne)
    then have r: "handleTextMessage E sender msg =
        bindE (add E sender) (\<lambda>_.
             bindE (sendWhatsAppText E sender OptedOutNotice) (\<lambda>_.
               logUsage E (OptOut sender)))"
      using a by (simp only: run if_True if_False)
    show "newCalls s (snd (handleTextMessage E sender msg s))
         = (if fst (add E sender s) = Inr () then [SendText sender OptedOutNotice] else [])
      \<and> (fst (add E sender s) = Inr () \<longrightarrow>
           sender \<in> set (items (optOutStore (snd (handleTextMessage E sender msg s)))))"
      unfolding r
      by (rule store_then_reply [where P = "\<lambda>st. sender \<in> set (items st)"]) (rule add_result)
  qed
  have c3: "cmd = ''start'' \<or> cmd = ''/start'' \<longrightarrow>
      newCalls s (snd (handleTextMessage E sender msg s))
         = (if fst (remove E sender s) = Inr () then [SendText sender BackInNotice] else [])
      \<and> (fst (remove E sender s) = Inr () \<longrightarrow>
           sender \<notin> set (items (optOutStore (snd (handleTextMessage E sender msg s)))))"
  proof
    assume a: "cmd = ''start'' \<or> cmd = ''/start''"
    then have "cmd \<noteq> []" by auto
    then have n: "trimmed \<noteq> []" by (rule ne)
    have b: "\<not> (cmd = ''stop'' \<or> cmd = ''/stop'')" using a by auto
    have r: "handleTextMessage E sender msg =
        bindE (remove E sender) (\<lambda>_.
             bindE (sendWhatsAppText E sender BackInNotice) (\<lambda>_.
               logUsage E (OptIn sender)))"
      using a b n by (simp only: run if_True if_False)
    show "newCalls s (snd (handleTextMessage E sender msg s))
         = (if fst (remove E sender s) = Inr () then [SendText sender BackInNotice] else [])
      \<and> (fst (remove E sender s) = Inr () \<longrightarrow>
           sender \<notin> set (items (optOutStore (snd (handleTextMessage E sender msg s)))))"
      unfolding r
      by (rule store_then_reply [where P = "\<lambda>st. sender \<notin> set (items st)"]) (rule remove_result)
  qed
  have c4: "cmd = ''human'' \<or> cmd = ''/human'' \<longrightarrow>
      newCalls s (snd (handleTextMessage E sender msg s)) = [SendText sender HumanNotice]"
  proof
    assume a: "cmd = ''human'' \<or> cmd = ''/human''"
    then have "cmd \<noteq> []" by auto
    then have n: "trimmed \<noteq> []" by (rule ne)
    have b: "\<not> (cmd = ''stop'' \<or> cmd = ''/stop'')" "\<not> (cmd = ''start'' \<or> cmd = ''/start'')"
      using a by auto
    have r: "handleTextMessage E sender msg =
        bindE (sendWhatsAppText E sender HumanNotice) (\<lambda>_. logUsage E (HumanRequested sender))"
      using a b n by (simp only: run if_True if_False)
    show "newCalls s (snd (handleTextMessage E sender msg s)) = [SendText sender HumanNotice]"
      unfolding r
      using send_then_log [of E sender HumanNotice "HumanRequested sender" s]
      by (simp add: newCalls_def)
  qed
  have c5: "trimmed \<noteq> [] \<and> cmd \<notin> {''stop'', ''/stop'', ''start'', ''/start'', ''human'', ''/human''} \<longrightarrow>
      newCalls s (snd (handleTextMessage E sender msg s)) = [SendText sender HelpReply]"
  proof
    assume a: "trimmed \<noteq> [] \<and> cmd \<notin> {''stop'', ''/stop'', ''start'', ''/start'', ''human'', ''/human''}"
    then have n: "trimmed \<noteq> []" by (rule conjunct1)
    have b: "\<not> (cmd = ''stop'' \<or> cmd = ''/stop'')" "\<not> (cmd = ''start'' \<or> cmd = ''/start'')"
        "\<not> (cmd = ''human'' \<or> cmd = ''/human'')"
      using a by (simp_all only: insert_iff empty_iff de_Morgan_disj simp_thms)
    have r: "handleTextMessage E sender msg = sendWhatsAppText E sender HelpReply"
      using b n by (simp only: run if_True if_False)
    show "newCalls s (snd (handleTextMessage E sender msg s)) = [SendText sender HelpReply]"
      unfolding r by (simp add: newCalls_def sendWhatsAppText_def outbound_def advance_def)
  qed
  show ?thesis
    unfolding Let_def trimmed_def [symmetric] cmd_def [symmetric]
    by (rule conjI [OF c1 conjI [OF c2 conjI [OF c3 conjI [OF c4 c5]]]])
qed

text \<open>C7, witness: one body for each route.\<close>

theorem text_command_routing_witness:
  "newCalls freshWorld (snd (handleTextMessage calmEnv ''5215550001'' (textFrom ''5215550001'' ''  /StOp '') freshWorld))
     = [SendText ''5215550001'' OptedOutNotice]
   \<and> ''5215550001'' \<in> set (items (optOutStore (snd (handleTextMessage calmEnv ''5215550001'' (textFrom ''5215550001'' ''  /StOp '') freshWorld))))
   \<and> newCalls optedOutWorld (snd (handleTextMessage calmEnv ''5215550001'' (textFrom ''5215550001'' ''START'') optedOutWorld))
     = [SendText ''5215550001'' BackInNotice]
   \<and> ''5215550001'' \<notin> set (items (optOutStore (snd (handleTextMessage calmEnv ''5215550001'' (textFrom ''5215550001'' ''START'') optedOutWorld))))
   \<and> newCalls freshWorld (snd (handleTextMessage calmEnv ''5215550001'' (textFrom ''5215550001'' ''Human'') freshWorld))
     = [SendText ''5215550001'' HumanNotice]
   \<and> newCalls freshWorld (snd (handleTextMessage calmEnv ''5215550001'' (textFrom ''5215550001'' ''Thanks!'') freshWorld))
     = [SendText ''5215550001'' HelpReply]
   \<and> snd (handleTextMessage calmEnv ''5215550001'' (textFrom ''5215550001'' ''   '') freshWorld) = freshWorld"
proof -
  have a: "fst (add calmEnv ''5215550001'' freshWorld) = Inr ()"
      "fst (remove calmEnv ''5215550001'' optedOutWorld) = Inr ()"
    by (simp_all add: eval_defs calmEnv_def freshWorld_def optedOutWorld_def)
  have b: "trim ''  /StOp '' = ''/StOp''" "toLowerCase ''/StOp'' = ''/stop''"
      "trim ''START'' = ''START''" "toLowerCase ''START'' = ''start''"
      "trim ''Human'' = ''Human''" "toLowerCase ''Human'' = ''human''"
      "trim ''Thanks!'' = ''Thanks!''" "toLowerCase ''Thanks!'' = ''thanks!''"
      "trim ''   '' = []"
    by (simp_all add: toLowerCase_def toLowerChar_def trim_def isWhiteSpace_def char_of_eq_iff)
  show ?thesis
    using text_command_routing [of "textFrom ''5215550001'' ''  /StOp ''" calmEnv "''5215550001''" freshWorld]
      text_command_routing [of "textFrom ''5215550001'' ''START''" calmEnv "''5215550001''" optedOutWorld]
      text_command_routing [of "textFrom ''5215550001'' ''Human''" calmEnv "''5215550001''" freshWorld]
      text_command_routing [of "textFrom ''5215550001'' ''Thanks!''" calmEnv "''5215550001''" freshWorld]
      text_command_routing [of "textFrom ''5215550001'' ''   ''" calmEnv "''5215550001''" freshWorld]
    by (simp add: Let_def textFrom_def a b)
qed

text \<open>C7, counterexample to the claim as stated: a body of three spaces is no command and gets no
  help reply.\<close>

theorem blank_text_gets_no_reply:
  "toLowerCase (trim ''   '') \<notin> {''stop'', ''/stop'', ''start'', ''/start'', ''human'', ''/human''}
   \<and> newCalls freshWorld (snd (handleTextMessage calmEnv ''5215550001'' (textFrom ''5215550001'' ''   '') freshWorld)) = []"
  by (simp add: handleTextMessage_def textFrom_def newCalls_def returnE_def
      toLowerCase_def trim_def isWhiteSpace_def freshWorld_def)

section \<open>Webhook verification\<close>

text \<open>C9. With mode \<open>subscribe\<close> and a supplied token equal to the configured one the response is
  200 with the supplied challenge as body; with a supplied token that differs the response is
  \<open>sendStatus(403)\<close>, the same response for every configured token that differs from the supplied
  one, so nothing of the configured token is in it.\<close>

theorem getWebhook_verification:
  "(hub_mode q = Some (QString ''subscribe'') \<and> hub_verify_token q = map_option QString (META_VERIFY_TOKEN E)
      \<longrightarrow> getWebhook E q = StatusSend 200 (hub_challenge q))
   \<and> (hub_verify_token q \<noteq> map_option QString (META_VERIFY_TOKEN E)
      \<longrightarrow> getWebhook E q = SendStatus 403
          \<and> (\<forall>E'. hub_verify_token q \<noteq> map_option QString (META_VERIFY_TOKEN E')
                 \<longrightarrow> getWebhook E' q = getWebhook E q))"
  by (simp add: getWebhook_def strictEq_iff)

text \<open>C9, witness.\<close>

theorem getWebhook_verification_witness:
  "getWebhook calmEnv \<lparr>hub_mode = Some (QString ''subscribe''), hub_verify_token = Some (QString ''s3cret''), hub_challenge = Some (QString ''1158201444'')\<rparr> = StatusSend 200 (Some (QString ''1158201444''))
   \<and> getWebhook calmEnv \<lparr>hub_mode = Some (QString ''subscribe''), hub_verify_token = Some (QString ''guess''), hub_challenge = Some (QString ''1158201444'')\<rparr> = SendStatus 403"
  using getWebhook_verification [of "\<lparr>hub_mode = Some (QString ''subscribe''), hub_verify_token = Some (QString ''s3cret''), hub_challenge = Some (QString ''1158201444'')\<rparr>" calmEnv]
    getWebhook_verification [of "\<lparr>hub_mode = Some (QString ''subscribe''), hub_verify_token = Some (QString ''guess''), hub_challenge = Some (QString ''1158201444'')\<rparr>" calmEnv]
  by (simp add: calmEnv_def)

text \<open>C10. With no configured token, a request with mode \<open>subscribe\<close> and no token parameter is
  answered 200 with the challenge.\<close>

theorem getWebhook_fails_open:
  "META_VERIFY_TOKEN E = None \<Longrightarrow> hub_mode q = Some (QString ''subscribe'') \<Longrightarrow> hub_verify_token q = None
   \<Longrightarrow> getWebhook E q = StatusSend 200 (hub_challenge q)"
  by (simp add: getWebhook_def)

text \<open>C10, witness.\<close>

theorem getWebhook_fails_open_witness:
  "getWebhook (calmEnv\<lparr>META_VERIFY_TOKEN := None\<rparr>) \<lparr>hub_mode = Some (QString ''subscribe''), hub_verify_token = None, hub_challenge = Some (QString ''42'')\<rparr> = StatusSend 200 (Some (QString ''42''))"
  using getWebhook_fails_open [of "calmEnv\<lparr>META_VERIFY_TOKEN := None\<rparr>" "\<lparr>hub_mode = Some (QString ''subscribe''), hub_verify_token = None, hub_challenge = Some (QString ''42'')\<rparr>"]
  by simp

end
